theory Spec2Isabelle
  imports Main "HOL-Library.AList"
begin

section \<open>Dates and times\<close>

text \<open>
  Python's naive \<^verbatim>\<open>datetime\<close> stores its calendar fields; two values are compared
  field by field, most significant first. \<^verbatim>\<open>isoformat()\<close> and
  \<^verbatim>\<open>strftime('%Y%m%d_%H%M%S')\<close> print the fields zero-padded.
\<close>

record datetime =
  dt_year :: nat
  dt_month :: nat
  dt_day :: nat
  dt_hour :: nat
  dt_minute :: nat
  dt_second :: nat
  dt_microsecond :: nat




definition digit_char :: "nat \<Rightarrow> char" where
  "digit_char d = char_of (48 + d)"

fun pad :: "nat \<Rightarrow> nat \<Rightarrow> string" where
  "pad 0 n = []"
| "pad (Suc w) n = pad w (n div 10) @ [digit_char (n mod 10)]"

definition isoformat :: "datetime \<Rightarrow> string" where
  "isoformat t =
     pad 4 (dt_year t) @ ''-'' @ pad 2 (dt_month t) @ ''-'' @ pad 2 (dt_day t) @ ''T'' @
     pad 2 (dt_hour t) @ '':'' @ pad 2 (dt_minute t) @ '':'' @ pad 2 (dt_second t) @
     (if dt_microsecond t = 0 then [] else ''.'' @ pad 6 (dt_microsecond t))"

definition strftime_stamp :: "datetime \<Rightarrow> string" where
  "strftime_stamp t =
     pad 4 (dt_year t) @ pad 2 (dt_month t) @ pad 2 (dt_day t) @ ''_'' @
     pad 2 (dt_hour t) @ pad 2 (dt_minute t) @ pad 2 (dt_second t)"

text \<open>
  The difference of two datetimes, \<^verbatim>\<open>(b - a).total_seconds()\<close>, is kept as a whole
  number of microseconds (the float is that number divided by \<open>10^6\<close>). The day count is
  the proleptic Gregorian ordinal of the standard library.
\<close>

definition is_leap :: "nat \<Rightarrow> bool" where
  "is_leap y = (y mod 4 = 0 \<and> (y mod 100 \<noteq> 0 \<or> y mod 400 = 0))"

definition days_before_year :: "nat \<Rightarrow> int" where
  "days_before_year y =
     (let p = int y - 1 in p * 365 + p div 4 - p div 100 + p div 400)"

definition days_before_month :: "nat \<Rightarrow> nat \<Rightarrow> int" where
  "days_before_month y m =
     int (sum_list (take (m - 1) [31, 28, 31, 30, 31, 30, 31, 31, 30, 31, 30, 31]))
     + (if 2 < m \<and> is_leap y then 1 else 0)"

definition ymd2ord :: "datetime \<Rightarrow> int" where
  "ymd2ord t = days_before_year (dt_year t) + days_before_month (dt_year t) (dt_month t)
               + int (dt_day t)"

definition to_microseconds :: "datetime \<Rightarrow> int" where
  "to_microseconds t =
     (((ymd2ord t * 24 + int (dt_hour t)) * 60 + int (dt_minute t)) * 60
        + int (dt_second t)) * 1000000 + int (dt_microsecond t)"

definition total_microseconds :: "datetime \<Rightarrow> datetime \<Rightarrow> int" where
  "total_microseconds later earlier = to_microseconds later - to_microseconds earlier"


section \<open>Execution history (class ScheduleHistory)\<close>

record history_entry =
  he_id :: string
  he_schedule_id :: string
  he_schedule_name :: string
  he_backup_types :: "string list"
  he_status :: string
  he_duration :: int
  he_message :: string
  he_timestamp :: string

record ScheduleHistory =
  max_entries :: int
  entries :: "history_entry list"

definition ScheduleHistory_init :: "int \<Rightarrow> ScheduleHistory" where
  "ScheduleHistory_init m = \<lparr>max_entries = m, entries = []\<rparr>"

text \<open>The slice \<^verbatim>\<open>xs[:m]\<close>: a negative bound counts from the end.\<close>

definition slice_to :: "'a list \<Rightarrow> int \<Rightarrow> 'a list" where
  "slice_to xs m = (if 0 \<le> m then take (nat m) xs else take (nat (int (length xs) + m)) xs)"

text \<open>
  One call of \<^verbatim>\<open>add\<close>. Its two readings of the environment, \<^verbatim>\<open>str(uuid4())\<close>
  and \<^verbatim>\<open>datetime.now()\<close>, are arguments.
\<close>

record add_call =
  ac_schedule_id :: string
  ac_schedule_name :: string
  ac_backup_types :: "string list"
  ac_status :: string
  ac_duration :: int
  ac_message :: string
  ac_uuid :: string
  ac_now :: datetime

definition entry_of :: "add_call \<Rightarrow> history_entry" where
  "entry_of c =
     \<lparr>he_id = take 8 (ac_uuid c),
      he_schedule_id = ac_schedule_id c,
      he_schedule_name = ac_schedule_name c,
      he_backup_types = ac_backup_types c,
      he_status = ac_status c,
      he_duration = ac_duration c,
      he_message = ac_message c,
      he_timestamp = isoformat (ac_now c)\<rparr>"

definition ScheduleHistory_add :: "ScheduleHistory \<Rightarrow> add_call \<Rightarrow> ScheduleHistory" where
  "ScheduleHistory_add h c =
     (let es = entry_of c # entries h
      in if int (length es) > max_entries h
         then h\<lparr>entries := slice_to es (max_entries h)\<rparr>
         else h\<lparr>entries := es\<rparr>)"

definition add_all :: "ScheduleHistory \<Rightarrow> add_call list \<Rightarrow> ScheduleHistory" where
  "add_all h cs = foldl ScheduleHistory_add h cs"

definition get_recent :: "ScheduleHistory \<Rightarrow> int \<Rightarrow> history_entry list" where
  "get_recent h limit = slice_to (entries h) limit"


text \<open>A call used in examples: only the message and the status vary.\<close>

definition sample_time :: datetime where
  "sample_time = \<lparr>dt_year = 2024, dt_month = 1, dt_day = 1, dt_hour = 10, dt_minute = 0,
                   dt_second = 0, dt_microsecond = 0\<rparr>"

definition sample_call :: "string \<Rightarrow> add_call" where
  "sample_call msg =
     \<lparr>ac_schedule_id = ''a1b2c3d4e5f6'', ac_schedule_name = ''nightly'',
      ac_backup_types = [''global''], ac_status = ''success'', ac_duration = 1500000,
      ac_message = msg, ac_uuid = ''0f8fad5b-d9cb-469f-a165-70867728950e'',
      ac_now = sample_time\<rparr>"


section \<open>Python values, exceptions, dictionaries\<close>

datatype ScheduleType = CRON | INTERVAL | DAILY | WEEKLY | MONTHLY | ONCE

datatype ScheduleStatus = ACTIVE | PAUSED | DISABLED

text \<open>
  Exceptions carry their message (\<^verbatim>\<open>str(e)\<close>). \<open>CancelledError\<close> stands for the
  exceptions that derive from \<^verbatim>\<open>BaseException\<close> only, which
  \<^verbatim>\<open>except Exception\<close> does not catch.
\<close>

datatype exn =
    ValueError string
  | TypeError string
  | AttributeError string
  | IndexError string
  | RuntimeError string
  | CancelledError string

fun str_exn :: "exn \<Rightarrow> string" where
  "str_exn (ValueError m) = m"
| "str_exn (TypeError m) = m"
| "str_exn (AttributeError m) = m"
| "str_exn (IndexError m) = m"
| "str_exn (RuntimeError m) = m"
| "str_exn (CancelledError m) = m"

fun is_Exception :: "exn \<Rightarrow> bool" where
  "is_Exception (CancelledError m) = False"
| "is_Exception e = True"

text \<open>
  The values a dictionary handed to the scheduler can hold: what \<^verbatim>\<open>json.load\<close>
  returns (numbers restricted to integers; no field of a schedule is a float) and the
  members of the two enumerations. Both enumerations derive from \<^verbatim>\<open>str\<close>.
\<close>

datatype pyval =
    PNone
  | PBool bool
  | PInt int
  | PStr string
  | PList "pyval list"
  | PDict "(string \<times> pyval) list"
  | PType ScheduleType
  | PStatus ScheduleStatus

type_synonym pydict = "(string \<times> pyval) list"

fun ScheduleType_value :: "ScheduleType \<Rightarrow> string" where
  "ScheduleType_value CRON = ''cron''"
| "ScheduleType_value INTERVAL = ''interval''"
| "ScheduleType_value DAILY = ''daily''"
| "ScheduleType_value WEEKLY = ''weekly''"
| "ScheduleType_value MONTHLY = ''monthly''"
| "ScheduleType_value ONCE = ''once''"

fun ScheduleStatus_value :: "ScheduleStatus \<Rightarrow> string" where
  "ScheduleStatus_value ACTIVE = ''active''"
| "ScheduleStatus_value PAUSED = ''paused''"
| "ScheduleStatus_value DISABLED = ''disabled''"

text \<open>\<^verbatim>\<open>ScheduleType(x)\<close> and \<^verbatim>\<open>ScheduleStatus(x)\<close>: lookup of a member by value.\<close>

definition ScheduleType_of_str :: "string \<Rightarrow> exn + ScheduleType" where
  "ScheduleType_of_str x =
     (case find (\<lambda>t. ScheduleType_value t = x) [CRON, INTERVAL, DAILY, WEEKLY, MONTHLY, ONCE] of
        Some t \<Rightarrow> Inr t
      | None \<Rightarrow> Inl (ValueError (x @ '' is not a valid ScheduleType'')))"

definition ScheduleStatus_of_str :: "string \<Rightarrow> exn + ScheduleStatus" where
  "ScheduleStatus_of_str x =
     (case find (\<lambda>t. ScheduleStatus_value t = x) [ACTIVE, PAUSED, DISABLED] of
        Some t \<Rightarrow> Inr t
      | None \<Rightarrow> Inl (ValueError (x @ '' is not a valid ScheduleStatus'')))"

text \<open>The string content of a value that is an instance of \<^verbatim>\<open>str\<close>.\<close>

fun str_content :: "pyval \<Rightarrow> string option" where
  "str_content (PStr x) = Some x"
| "str_content (PType t) = Some (ScheduleType_value t)"
| "str_content (PStatus t) = Some (ScheduleStatus_value t)"
| "str_content v = None"

text \<open>
  What \<^verbatim>\<open>json.dump\<close> followed by \<^verbatim>\<open>json.load\<close> makes of a value: a member of a
  \<^verbatim>\<open>str\<close> enumeration is written as its string.
\<close>

fun json_value :: "pyval \<Rightarrow> pyval" where
  "json_value (PType t) = PStr (ScheduleType_value t)"
| "json_value (PStatus t) = PStr (ScheduleStatus_value t)"
| "json_value (PList xs) = PList (map json_value xs)"
| "json_value (PDict kvs) = PDict (map (\<lambda>(k, v). (k, json_value v)) kvs)"
| "json_value PNone = PNone"
| "json_value (PBool b) = PBool b"
| "json_value (PInt i) = PInt i"
| "json_value (PStr x) = PStr x"

text \<open>A dictionary keeps insertion order; assigning to a key that is present keeps its place.\<close>

definition dict_get :: "pydict \<Rightarrow> string \<Rightarrow> pyval option" where
  "dict_get d k = map_of d k"

definition dict_set :: "pydict \<Rightarrow> string \<Rightarrow> pyval \<Rightarrow> pydict" where
  "dict_set d k v = AList.update k v d"


section \<open>Schedules (dataclass ScheduleConfig)\<close>

record ScheduleConfig =
  id_field :: string
  name :: string
  description :: string
  backup_types :: "string list"
  schedule_type :: ScheduleType
  status :: ScheduleStatus
  cron_expression :: "string option"
  interval_minutes :: "int option"
  time_of_day :: "string option"
  days_of_week :: "int list option"
  days_of_month :: "int list option"
  run_date :: "string option"
  created_at :: string
  updated_at :: string
  last_run :: "string option"
  next_run :: "string option"
  run_count :: int
  last_status :: "string option"
  retry_on_failure :: bool
  max_retries :: int
  notification_email :: "string option"
  sequential_execution :: bool

datatype field =
    F_id | F_name | F_description | F_backup_types | F_schedule_type | F_status
  | F_cron_expression | F_interval_minutes | F_time_of_day | F_days_of_week
  | F_days_of_month | F_run_date | F_created_at | F_updated_at | F_last_run | F_next_run
  | F_run_count | F_last_status | F_retry_on_failure | F_max_retries
  | F_notification_email | F_sequential_execution

definition field_list :: "field list" where
  "field_list =
     [F_id, F_name, F_description, F_backup_types, F_schedule_type, F_status,
      F_cron_expression, F_interval_minutes, F_time_of_day, F_days_of_week,
      F_days_of_month, F_run_date, F_created_at, F_updated_at, F_last_run, F_next_run,
      F_run_count, F_last_status, F_retry_on_failure, F_max_retries,
      F_notification_email, F_sequential_execution]"

fun field_name :: "field \<Rightarrow> string" where
  "field_name F_id = ''id''"
| "field_name F_name = ''name''"
| "field_name F_description = ''description''"
| "field_name F_backup_types = ''backup_types''"
| "field_name F_schedule_type = ''schedule_type''"
| "field_name F_status = ''status''"
| "field_name F_cron_expression = ''cron_expression''"
| "field_name F_interval_minutes = ''interval_minutes''"
| "field_name F_time_of_day = ''time_of_day''"
| "field_name F_days_of_week = ''days_of_week''"
| "field_name F_days_of_month = ''days_of_month''"
| "field_name F_run_date = ''run_date''"
| "field_name F_created_at = ''created_at''"
| "field_name F_updated_at = ''updated_at''"
| "field_name F_last_run = ''last_run''"
| "field_name F_next_run = ''next_run''"
| "field_name F_run_count = ''run_count''"
| "field_name F_last_status = ''last_status''"
| "field_name F_retry_on_failure = ''retry_on_failure''"
| "field_name F_max_retries = ''max_retries''"
| "field_name F_notification_email = ''notification_email''"
| "field_name F_sequential_execution = ''sequential_execution''"

text \<open>\<^verbatim>\<open>hasattr(schedule, key)\<close>, for the attributes that are fields of the dataclass.\<close>

definition field_of_key :: "string \<Rightarrow> field option" where
  "field_of_key k = find (\<lambda>f. field_name f = k) field_list"

definition opt_val :: "('a \<Rightarrow> pyval) \<Rightarrow> 'a option \<Rightarrow> pyval" where
  "opt_val f x = (case x of None \<Rightarrow> PNone | Some y \<Rightarrow> f y)"

definition str_list_val :: "string list \<Rightarrow> pyval" where
  "str_list_val xs = PList (map PStr xs)"

definition int_list_val :: "int list \<Rightarrow> pyval" where
  "int_list_val xs = PList (map PInt xs)"

fun getattr :: "ScheduleConfig \<Rightarrow> field \<Rightarrow> pyval" where
  "getattr s F_id = PStr (id_field s)"
| "getattr s F_name = PStr (name s)"
| "getattr s F_description = PStr (description s)"
| "getattr s F_backup_types = str_list_val (backup_types s)"
| "getattr s F_schedule_type = PType (schedule_type s)"
| "getattr s F_status = PStatus (status s)"
| "getattr s F_cron_expression = opt_val PStr (cron_expression s)"
| "getattr s F_interval_minutes = opt_val PInt (interval_minutes s)"
| "getattr s F_time_of_day = opt_val PStr (time_of_day s)"
| "getattr s F_days_of_week = opt_val int_list_val (days_of_week s)"
| "getattr s F_days_of_month = opt_val int_list_val (days_of_month s)"
| "getattr s F_run_date = opt_val PStr (run_date s)"
| "getattr s F_created_at = PStr (created_at s)"
| "getattr s F_updated_at = PStr (updated_at s)"
| "getattr s F_last_run = opt_val PStr (last_run s)"
| "getattr s F_next_run = opt_val PStr (next_run s)"
| "getattr s F_run_count = PInt (run_count s)"
| "getattr s F_last_status = opt_val PStr (last_status s)"
| "getattr s F_retry_on_failure = PBool (retry_on_failure s)"
| "getattr s F_max_retries = PInt (max_retries s)"
| "getattr s F_notification_email = opt_val PStr (notification_email s)"
| "getattr s F_sequential_execution = PBool (sequential_execution s)"

text \<open>
  Reading a value at the declared type of a field. Python stores any value in any
  attribute; the record of this model holds values of the declared types only, so a
  value of another type has no reading (\<open>None\<close>) and is reported as outside the model.
\<close>

fun as_str :: "pyval \<Rightarrow> string option" where
  "as_str (PStr x) = Some x"
| "as_str v = None"

fun as_int :: "pyval \<Rightarrow> int option" where
  "as_int (PInt i) = Some i"
| "as_int v = None"

fun as_bool :: "pyval \<Rightarrow> bool option" where
  "as_bool (PBool b) = Some b"
| "as_bool v = None"

fun as_type :: "pyval \<Rightarrow> ScheduleType option" where
  "as_type (PType t) = Some t"
| "as_type v = None"

fun as_status :: "pyval \<Rightarrow> ScheduleStatus option" where
  "as_status (PStatus t) = Some t"
| "as_status v = None"

fun all_some :: "'a option list \<Rightarrow> 'a list option" where
  "all_some [] = Some []"
| "all_some (None # xs) = None"
| "all_some (Some x # xs) = (case all_some xs of None \<Rightarrow> None | Some ys \<Rightarrow> Some (x # ys))"

fun as_list :: "(pyval \<Rightarrow> 'a option) \<Rightarrow> pyval \<Rightarrow> 'a list option" where
  "as_list f (PList xs) = all_some (map f xs)"
| "as_list f v = None"

fun as_opt :: "(pyval \<Rightarrow> 'a option) \<Rightarrow> pyval \<Rightarrow> 'a option option" where
  "as_opt f PNone = Some None"
| "as_opt f v = (case f v of None \<Rightarrow> None | Some x \<Rightarrow> Some (Some x))"

fun setattr :: "ScheduleConfig \<Rightarrow> field \<Rightarrow> pyval \<Rightarrow> ScheduleConfig option" where
  "setattr s F_id v = map_option (\<lambda>x. s\<lparr>id_field := x\<rparr>) (as_str v)"
| "setattr s F_name v = map_option (\<lambda>x. s\<lparr>name := x\<rparr>) (as_str v)"
| "setattr s F_description v = map_option (\<lambda>x. s\<lparr>description := x\<rparr>) (as_str v)"
| "setattr s F_backup_types v = map_option (\<lambda>x. s\<lparr>backup_types := x\<rparr>) (as_list as_str v)"
| "setattr s F_schedule_type v = map_option (\<lambda>x. s\<lparr>schedule_type := x\<rparr>) (as_type v)"
| "setattr s F_status v = map_option (\<lambda>x. s\<lparr>status := x\<rparr>) (as_status v)"
| "setattr s F_cron_expression v =
     map_option (\<lambda>x. s\<lparr>cron_expression := x\<rparr>) (as_opt as_str v)"
| "setattr s F_interval_minutes v =
     map_option (\<lambda>x. s\<lparr>interval_minutes := x\<rparr>) (as_opt as_int v)"
| "setattr s F_time_of_day v = map_option (\<lambda>x. s\<lparr>time_of_day := x\<rparr>) (as_opt as_str v)"
| "setattr s F_days_of_week v =
     map_option (\<lambda>x. s\<lparr>days_of_week := x\<rparr>) (as_opt (as_list as_int) v)"
| "setattr s F_days_of_month v =
     map_option (\<lambda>x. s\<lparr>days_of_month := x\<rparr>) (as_opt (as_list as_int) v)"
| "setattr s F_run_date v = map_option (\<lambda>x. s\<lparr>run_date := x\<rparr>) (as_opt as_str v)"
| "setattr s F_created_at v = map_option (\<lambda>x. s\<lparr>created_at := x\<rparr>) (as_str v)"
| "setattr s F_updated_at v = map_option (\<lambda>x. s\<lparr>updated_at := x\<rparr>) (as_str v)"
| "setattr s F_last_run v = map_option (\<lambda>x. s\<lparr>last_run := x\<rparr>) (as_opt as_str v)"
| "setattr s F_next_run v = map_option (\<lambda>x. s\<lparr>next_run := x\<rparr>) (as_opt as_str v)"
| "setattr s F_run_count v = map_option (\<lambda>x. s\<lparr>run_count := x\<rparr>) (as_int v)"
| "setattr s F_last_status v = map_option (\<lambda>x. s\<lparr>last_status := x\<rparr>) (as_opt as_str v)"
| "setattr s F_retry_on_failure v =
     map_option (\<lambda>x. s\<lparr>retry_on_failure := x\<rparr>) (as_bool v)"
| "setattr s F_max_retries v = map_option (\<lambda>x. s\<lparr>max_retries := x\<rparr>) (as_int v)"
| "setattr s F_notification_email v =
     map_option (\<lambda>x. s\<lparr>notification_email := x\<rparr>) (as_opt as_str v)"
| "setattr s F_sequential_execution v =
     map_option (\<lambda>x. s\<lparr>sequential_execution := x\<rparr>) (as_bool v)"

text \<open>\<^verbatim>\<open>to_dict\<close> is \<^verbatim>\<open>asdict(self)\<close>: every field, in declaration order.\<close>

definition to_dict :: "ScheduleConfig \<Rightarrow> pydict" where
  "to_dict s = map (\<lambda>f. (field_name f, getattr s f)) field_list"


section \<open>The environment: clock, identifiers, disk, and the scheduling libraries\<close>

text \<open>
  A result is a value or an error. \<open>Raised\<close> is a Python exception. \<open>IllTyped\<close> is not
  one: it reports that a dictionary holds, under the named key, a value that the typed
  record above cannot store, where the source would have stored it unchecked.
\<close>

datatype error = Raised exn | IllTyped string

datatype log_level = INFO | WARNING | ERROR

text \<open>
  The triggers of APScheduler that \<^verbatim>\<open>_get_trigger\<close> builds, as the constructor calls
  it makes (the comma-joined day lists are kept as the lists they are joined from).
\<close>

datatype trigger =
    CronTrigger_from_crontab string
  | IntervalTrigger int
  | CronTrigger_daily int int
  | CronTrigger_weekly "int list" int int
  | CronTrigger_monthly "int list" int int
  | DateTrigger datetime

text \<open>
  The libraries the scheduler calls are parameters of the model:
  \<^item> \<open>croniter_get_next e now\<close> is \<^verbatim>\<open>croniter(e, now).get_next(datetime)\<close>;
  \<^item> \<open>trigger_error tr\<close> is the exception the constructor call \<open>tr\<close> raises, if any;
  \<^item> \<open>get_next_fire_time tr now\<close> is \<^verbatim>\<open>trigger.get_next_fire_time(None, now)\<close>;
  \<^item> \<open>job_next_run_time tr now\<close> is the \<^verbatim>\<open>next_run_time\<close> of a job just added
    with that trigger;
  \<^item> \<open>int_of_str\<close> is \<^verbatim>\<open>int(s)\<close> and \<open>fromisoformat\<close> is
    \<^verbatim>\<open>datetime.fromisoformat(s)\<close>, \<open>None\<close> where they raise \<^verbatim>\<open>ValueError\<close>;
  \<^item> \<open>format_schedule_type t\<close> is what an f-string prints for a member of
    \<^verbatim>\<open>ScheduleType\<close> (it differs between versions of Python).
\<close>

record env =
  croniter_get_next :: "string \<Rightarrow> datetime \<Rightarrow> exn + datetime"
  trigger_error :: "trigger \<Rightarrow> exn option"
  get_next_fire_time :: "trigger \<Rightarrow> datetime \<Rightarrow> exn + datetime option"
  job_next_run_time :: "trigger \<Rightarrow> datetime \<Rightarrow> datetime option"
  int_of_str :: "string \<Rightarrow> int option"
  fromisoformat :: "string \<Rightarrow> datetime option"
  format_schedule_type :: "ScheduleType \<Rightarrow> string"

text \<open>The content of the file \<^verbatim>\<open>config_file\<close>: absent, unreadable, or a JSON document.\<close>

datatype file_content = Absent | Unreadable exn | Document pyval

text \<open>
  The state of a \<^verbatim>\<open>BackupScheduler\<close> with the part of the world it reads and writes.
  \<open>clock_readings\<close> lists what successive calls of \<^verbatim>\<open>datetime.now()\<close> return and
  \<open>ticks\<close> counts the calls made; \<open>uuid_source\<close> and \<open>uuid_count\<close> do the same for
  \<^verbatim>\<open>str(uuid4())\<close>. \<open>has_callback\<close> tells whether \<^verbatim>\<open>backup_callback\<close> is set,
  \<open>registered\<close> holds the ids of the jobs APScheduler has, \<open>disk_error\<close> is the exception
  that opening the file for writing raises, if any.
\<close>

record state =
  schedules :: "(string \<times> ScheduleConfig) list"
  history :: ScheduleHistory
  running_backup :: bool
  has_callback :: bool
  scheduler_running :: bool
  registered :: "string list"
  config_file :: file_content
  disk_error :: "exn option"
  logged :: "(log_level \<times> string) list"
  clock_readings :: "nat \<Rightarrow> datetime"
  ticks :: nat
  uuid_source :: "nat \<Rightarrow> string"
  uuid_count :: nat

definition now :: "state \<Rightarrow> datetime \<times> state" where
  "now st = (clock_readings st (ticks st), st\<lparr>ticks := Suc (ticks st)\<rparr>)"

definition uuid4 :: "state \<Rightarrow> string \<times> state" where
  "uuid4 st = (uuid_source st (uuid_count st), st\<lparr>uuid_count := Suc (uuid_count st)\<rparr>)"

definition logger :: "log_level \<Rightarrow> string \<Rightarrow> state \<Rightarrow> state" where
  "logger lv msg st = st\<lparr>logged := logged st @ [(lv, msg)]\<rparr>"


section \<open>ScheduleConfig.from_dict\<close>

text \<open>
  \<^verbatim>\<open>isinstance(data.get(key), str)\<close> and, if so, the replacement of the entry by the
  member of the enumeration with that value.
\<close>

definition convert_enum ::
  "string \<Rightarrow> (string \<Rightarrow> exn + pyval) \<Rightarrow> pydict \<Rightarrow> exn + pydict" where
  "convert_enum key member d =
     (case dict_get d key of
        None \<Rightarrow> Inr d
      | Some v \<Rightarrow>
          (case str_content v of
             None \<Rightarrow> Inr d
           | Some x \<Rightarrow> (case member x of Inl e \<Rightarrow> Inl e | Inr m \<Rightarrow> Inr (dict_set d key m))))"

definition type_member :: "string \<Rightarrow> exn + pyval" where
  "type_member x = map_sum id PType (ScheduleType_of_str x)"

definition status_member :: "string \<Rightarrow> exn + pyval" where
  "status_member x = map_sum id PStatus (ScheduleStatus_of_str x)"

definition required_fields :: "field list" where
  "required_fields = [F_id, F_name, F_description, F_backup_types, F_schedule_type]"

text \<open>
  The fields before the keyword arguments are stored: the declared defaults, and
  for the five required fields a placeholder that \<open>construct\<close> always overwrites.
\<close>

definition defaults :: "string \<Rightarrow> string \<Rightarrow> ScheduleConfig" where
  "defaults created updated =
     \<lparr>id_field = [], name = [], description = [], backup_types = [], schedule_type = CRON,
      status = ACTIVE, cron_expression = None, interval_minutes = None, time_of_day = None,
      days_of_week = None, days_of_month = None, run_date = None,
      created_at = created, updated_at = updated, last_run = None, next_run = None,
      run_count = 0, last_status = None, retry_on_failure = True, max_retries = 3,
      notification_email = None, sequential_execution = True\<rparr>"

fun store_fields :: "pydict \<Rightarrow> field list \<Rightarrow> ScheduleConfig \<Rightarrow> error + ScheduleConfig" where
  "store_fields d [] s = Inr s"
| "store_fields d (f # fs) s =
     (case dict_get d (field_name f) of
        None \<Rightarrow> store_fields d fs s
      | Some v \<Rightarrow>
          (case setattr s f v of
             None \<Rightarrow> Inl (IllTyped (field_name f))
           | Some s' \<Rightarrow> store_fields d fs s'))"

text \<open>
  \<^verbatim>\<open>cls(**data)\<close>: an unexpected or a missing required keyword raises
  \<^verbatim>\<open>TypeError\<close>; the default factories of \<^verbatim>\<open>created_at\<close> and
  \<^verbatim>\<open>updated_at\<close> read the clock only when the key is not given.
\<close>

definition construct :: "pydict \<Rightarrow> state \<Rightarrow> (error + ScheduleConfig) \<times> state" where
  "construct d st =
     (if list_ex (\<lambda>k. field_of_key k = None) (map fst d)
      then (Inl (Raised (TypeError ''__init__() got an unexpected keyword argument'')), st)
      else if list_ex (\<lambda>f. dict_get d (field_name f) = None) required_fields
      then (Inl (Raised (TypeError ''__init__() missing required positional arguments'')), st)
      else
        let (created, st1) =
              (if dict_get d ''created_at'' = None
               then (let (t, st') = now st in (isoformat t, st')) else ([], st));
            (updated, st2) =
              (if dict_get d ''updated_at'' = None
               then (let (t, st') = now st1 in (isoformat t, st')) else ([], st1))
        in (store_fields d field_list (defaults created updated), st2))"

definition from_dict :: "pyval \<Rightarrow> state \<Rightarrow> (error + ScheduleConfig) \<times> state" where
  "from_dict data st =
     (case data of
        PDict d \<Rightarrow>
          (case convert_enum ''schedule_type'' type_member d of
             Inl e \<Rightarrow> (Inl (Raised e), st)
           | Inr d1 \<Rightarrow>
               (case convert_enum ''status'' status_member d1 of
                  Inl e \<Rightarrow> (Inl (Raised e), st)
                | Inr d2 \<Rightarrow> construct d2 st))
      | _ \<Rightarrow> (Inl (Raised (AttributeError ''object has no attribute get'')), st))"


section \<open>Triggers and the next run\<close>

text \<open>\<^verbatim>\<open>s.split(sep)\<close> for a one-character separator.\<close>

fun split_on :: "char \<Rightarrow> string \<Rightarrow> string list" where
  "split_on c [] = [[]]"
| "split_on c (x # xs) =
     (if x = c then [] # split_on c xs
      else (case split_on c xs of [] \<Rightarrow> [[x]] | w # ws \<Rightarrow> (x # w) # ws))"

text \<open>
  \<^verbatim>\<open>hour, minute = map(int, schedule.time_of_day.split(':'))\<close>: anything but two
  parts that \<^verbatim>\<open>int\<close> accepts raises \<^verbatim>\<open>ValueError\<close>; no string at all has no
  \<^verbatim>\<open>split\<close>.
\<close>

definition parse_time_of_day :: "env \<Rightarrow> string option \<Rightarrow> exn + (int \<times> int)" where
  "parse_time_of_day E tod =
     (case tod of
        None \<Rightarrow> Inl (AttributeError ''NoneType object has no attribute split'')
      | Some x \<Rightarrow>
          (case map (int_of_str E) (split_on CHR '':'' x) of
             [Some h, Some m] \<Rightarrow> Inr (h, m)
           | _ \<Rightarrow> Inl (ValueError ''time_of_day'')))"

definition build :: "env \<Rightarrow> trigger \<Rightarrow> exn + trigger" where
  "build E tr = (case trigger_error E tr of Some e \<Rightarrow> Inl e | None \<Rightarrow> Inr tr)"

fun get_trigger_of :: "env \<Rightarrow> ScheduleType \<Rightarrow> ScheduleConfig \<Rightarrow> exn + trigger" where
  "get_trigger_of E CRON s =
     (case cron_expression s of
        None \<Rightarrow> Inl (AttributeError ''NoneType object has no attribute split'')
      | Some e \<Rightarrow> build E (CronTrigger_from_crontab e))"
| "get_trigger_of E INTERVAL s =
     (case interval_minutes s of
        None \<Rightarrow> Inl (TypeError ''unsupported type for timedelta minutes component: NoneType'')
      | Some m \<Rightarrow> build E (IntervalTrigger m))"
| "get_trigger_of E DAILY s =
     (case parse_time_of_day E (time_of_day s) of
        Inl e \<Rightarrow> Inl e
      | Inr (h, m) \<Rightarrow> build E (CronTrigger_daily h m))"
| "get_trigger_of E WEEKLY s =
     (case parse_time_of_day E (time_of_day s) of
        Inl e \<Rightarrow> Inl e
      | Inr (h, m) \<Rightarrow>
          (case days_of_week s of
             None \<Rightarrow> Inl (TypeError ''NoneType object is not iterable'')
           | Some ds \<Rightarrow> build E (CronTrigger_weekly ds h m)))"
| "get_trigger_of E MONTHLY s =
     (case parse_time_of_day E (time_of_day s) of
        Inl e \<Rightarrow> Inl e
      | Inr (h, m) \<Rightarrow>
          (case days_of_month s of
             None \<Rightarrow> Inl (TypeError ''NoneType object is not iterable'')
           | Some ds \<Rightarrow> build E (CronTrigger_monthly ds h m)))"
| "get_trigger_of E ONCE s =
     (case run_date s of
        None \<Rightarrow> Inl (TypeError ''fromisoformat: argument must be str'')
      | Some r \<Rightarrow>
          (case fromisoformat E r of
             None \<Rightarrow> Inl (ValueError ''Invalid isoformat string'')
           | Some t \<Rightarrow> build E (DateTrigger t)))"

definition get_trigger :: "env \<Rightarrow> ScheduleConfig \<Rightarrow> exn + trigger" where
  "get_trigger E s = get_trigger_of E (schedule_type s) s"

text \<open>
  \<^verbatim>\<open>_calculate_next_run\<close>. The clock is read where the source evaluates
  \<^verbatim>\<open>datetime.now()\<close>: always for a cron schedule, never for a one-shot schedule,
  and for the others only once the trigger is built. Every exception is caught,
  logged, and turned into \<open>None\<close>.
\<close>

definition calculate_next_run :: "env \<Rightarrow> ScheduleConfig \<Rightarrow> state \<Rightarrow> string option \<times> state" where
  "calculate_next_run E s st =
     (if schedule_type s = CRON then
        (let (t, st1) = now st in
         case (case cron_expression s of
                 None \<Rightarrow> Inl (AttributeError ''NoneType object has no attribute lower'')
               | Some e \<Rightarrow> croniter_get_next E e t) of
           Inr n \<Rightarrow> (Some (isoformat n), st1)
         | Inl e \<Rightarrow> (None, logger ERROR (''Error calculando next_run: '' @ str_exn e) st1))
      else if schedule_type s = ONCE then (run_date s, st)
      else
        (case get_trigger E s of
           Inl e \<Rightarrow> (None, logger ERROR (''Error calculando next_run: '' @ str_exn e) st)
         | Inr tr \<Rightarrow>
             (let (t, st1) = now st in
              case get_next_fire_time E tr t of
                Inr (Some n) \<Rightarrow> (Some (isoformat n), st1)
              | Inr None \<Rightarrow> (None, st1)
              | Inl e \<Rightarrow> (None, logger ERROR (''Error calculando next_run: '' @ str_exn e) st1))))"


section \<open>Loading and saving the job set\<close>

function str_nat :: "nat \<Rightarrow> string" where
  "str_nat n = (if n < 10 then [digit_char n] else str_nat (n div 10) @ [digit_char (n mod 10)])"
  by pat_completeness auto
termination
  by (relation "measure id") auto

text \<open>What a \<^verbatim>\<open>for\<close> loop iterates over; a value that is not iterable raises.\<close>

fun py_iter :: "pyval \<Rightarrow> exn + pyval list" where
  "py_iter (PList xs) = Inr xs"
| "py_iter (PDict kvs) = Inr (map (\<lambda>kv. PStr (fst kv)) kvs)"
| "py_iter (PStr x) = Inr (map (\<lambda>c. PStr [c]) x)"
| "py_iter (PType t) = Inr (map (\<lambda>c. PStr [c]) (ScheduleType_value t))"
| "py_iter (PStatus t) = Inr (map (\<lambda>c. PStr [c]) (ScheduleStatus_value t))"
| "py_iter v = Inl (TypeError ''object is not iterable'')"

text \<open>
  The loop of \<^verbatim>\<open>_load_schedules\<close>: the first record on which \<^verbatim>\<open>from_dict\<close>
  fails ends it, and the error is returned to the handler around the loop.
\<close>

fun load_loop :: "pyval list \<Rightarrow> state \<Rightarrow> error option \<times> state" where
  "load_loop [] st = (None, st)"
| "load_loop (x # xs) st =
     (case from_dict x st of
        (Inl e, st1) \<Rightarrow> (Some e, st1)
      | (Inr s, st1) \<Rightarrow>
          load_loop xs (st1\<lparr>schedules := AList.update (id_field s) s (schedules st1)\<rparr>))"

definition load_error_message :: "error \<Rightarrow> string" where
  "load_error_message e =
     ''Error cargando schedules: '' @ (case e of Raised x \<Rightarrow> str_exn x | IllTyped k \<Rightarrow> k)"

definition load_schedules :: "state \<Rightarrow> state" where
  "load_schedules st =
     (case config_file st of
        Absent \<Rightarrow> st
      | Unreadable e \<Rightarrow> logger ERROR (load_error_message (Raised e)) st
      | Document data \<Rightarrow>
          (case data of
             PDict d \<Rightarrow>
               (case py_iter (case dict_get d ''schedules'' of None \<Rightarrow> PList [] | Some v \<Rightarrow> v) of
                  Inl e \<Rightarrow> logger ERROR (load_error_message (Raised e)) st
                | Inr items \<Rightarrow>
                    (case load_loop items st of
                       (Some e, st1) \<Rightarrow> logger ERROR (load_error_message e) st1
                     | (None, st1) \<Rightarrow>
                         logger INFO
                           (''Cargados '' @ str_nat (length (schedules st1)) @ '' schedules'') st1))
           | _ \<Rightarrow>
               logger ERROR
                 (load_error_message (Raised (AttributeError ''object has no attribute get''))) st))"

text \<open>
  \<^verbatim>\<open>BackupScheduler.__init__\<close>: an empty scheduler with a history of the default
  cap, the gate open, then \<^verbatim>\<open>_load_schedules\<close>. The arguments are the callback flag and
  the world the scheduler starts in.
\<close>

definition BackupScheduler_init ::
  "bool \<Rightarrow> file_content \<Rightarrow> exn option \<Rightarrow> (nat \<Rightarrow> datetime) \<Rightarrow> (nat \<Rightarrow> string) \<Rightarrow> state" where
  "BackupScheduler_init cb file derr clk uuids =
     load_schedules
       \<lparr>schedules = [], history = ScheduleHistory_init 100, running_backup = False,
        has_callback = cb, scheduler_running = False, registered = [],
        config_file = file, disk_error = derr, logged = [],
        clock_readings = clk, ticks = 0, uuid_source = uuids, uuid_count = 0\<rparr>"

text \<open>
  \<^verbatim>\<open>_save_schedules\<close>. The document written is what \<^verbatim>\<open>json.load\<close> will read back.
\<close>

definition saved_document :: "(string \<times> ScheduleConfig) list \<Rightarrow> string \<Rightarrow> pyval" where
  "saved_document scheds stamp =
     json_value (PDict [(''schedules'', PList (map (\<lambda>kv. PDict (to_dict (snd kv))) scheds)),
                        (''updated_at'', PStr stamp)])"

definition save_schedules :: "state \<Rightarrow> state" where
  "save_schedules st =
     (let (t, st1) = now st in
      case disk_error st1 of
        Some e \<Rightarrow> logger ERROR (''Error guardando schedules: '' @ str_exn e) st1
      | None \<Rightarrow>
          logger INFO ''Schedules guardados''
            (st1\<lparr>config_file := Document (saved_document (schedules st1) (isoformat t))\<rparr>))"


section \<open>Firing a schedule\<close>

text \<open>
  This section is \<^verbatim>\<open>BackupScheduler._execute_scheduled_backup\<close>.
  Log messages are kept as the UTF-8 bytes of the source's text; the characters outside
  ASCII are spelled out here.
\<close>

definition a_acute :: string where "a_acute = [char_of (195::nat), char_of (161::nat)]"
definition o_acute :: string where "o_acute = [char_of (195::nat), char_of (179::nat)]"
definition clock_emoji :: string where
  "clock_emoji = [char_of (240::nat), char_of (159::nat), char_of (149::nat), char_of (144::nat)]"
definition check_emoji :: string where
  "check_emoji = [char_of (226::nat), char_of (156::nat), char_of (133::nat)]"
definition cross_emoji :: string where
  "cross_emoji = [char_of (226::nat), char_of (157::nat), char_of (140::nat)]"

text \<open>How a firing ends.\<close>

datatype fire_outcome =
    NotFound
  | NotActive
  | GateBusy
  | Succeeded
  | Failed exn
  | Propagated exn

text \<open>
  The schedule objects are shared: the firing mutates the object that the dictionary
  holds under the schedule's id.
\<close>

definition modify_schedule ::
  "string \<Rightarrow> (ScheduleConfig \<Rightarrow> ScheduleConfig) \<Rightarrow> state \<Rightarrow> state" where
  "modify_schedule sid f st =
     st\<lparr>schedules := map (\<lambda>kv. if fst kv = sid then (fst kv, f (snd kv)) else kv) (schedules st)\<rparr>"

definition history_add ::
  "string \<Rightarrow> ScheduleConfig \<Rightarrow> string \<Rightarrow> int \<Rightarrow> string \<Rightarrow> state \<Rightarrow> state" where
  "history_add sid s stat duration msg st =
     (let (u, st1) = uuid4 st;
          (t, st2) = now st1
      in st2\<lparr>history :=
               ScheduleHistory_add (history st2)
                 \<lparr>ac_schedule_id = sid, ac_schedule_name = name s,
                  ac_backup_types = backup_types s, ac_status = stat,
                  ac_duration = duration, ac_message = msg, ac_uuid = u, ac_now = t\<rparr>\<rparr>)"

text \<open>
  The part of the function before the \<^verbatim>\<open>try\<close>: the three early returns, or the
  gate is taken and the start time read.
\<close>

datatype begin_result = Skip fire_outcome | Acquired ScheduleConfig datetime

definition begin_firing :: "string \<Rightarrow> state \<Rightarrow> begin_result \<times> state" where
  "begin_firing sid st =
     (case map_of (schedules st) sid of
        None \<Rightarrow> (Skip NotFound, logger ERROR (''Schedule '' @ sid @ '' no encontrado'') st)
      | Some s \<Rightarrow>
          if status s \<noteq> ACTIVE
          then (Skip NotActive,
                logger INFO (''Schedule '' @ name s @ '' no est'' @ a_acute @ '' activo, saltando'') st)
          else if running_backup st
          then (Skip GateBusy,
                logger WARNING (''Ya hay un backup en ejecuci'' @ o_acute @ ''n, encolando '' @ name s) st)
          else
            (let (t0, st1) = now (st\<lparr>running_backup := True\<rparr>)
             in (Acquired s t0,
                 logger INFO (clock_emoji @ '' Ejecutando backup programado: '' @ name s) st1)))"

text \<open>
  The backup types the body of the \<^verbatim>\<open>try\<close> passes to the callback, in order:
  all of them when the schedule is sequential, the first one otherwise
  (\<^verbatim>\<open>backup_types[0]\<close> raises on an empty list), none when no callback is set.
\<close>

definition invocations :: "state \<Rightarrow> ScheduleConfig \<Rightarrow> exn + string list" where
  "invocations st s =
     (if sequential_execution s
      then Inr (if has_callback st then backup_types s else [])
      else if has_callback st
      then (case backup_types s of
              [] \<Rightarrow> Inl (IndexError ''list index out of range'')
            | b # bs \<Rightarrow> Inr [b])
      else Inr [])"

text \<open>The statistics update after the last callback has returned.\<close>

definition on_success :: "env \<Rightarrow> string \<Rightarrow> ScheduleConfig \<Rightarrow> datetime \<Rightarrow> state \<Rightarrow> state" where
  "on_success E sid s t0 st =
     (let (t1, st1) = now st;
          s1 = s\<lparr>last_run := Some (isoformat t1), run_count := run_count s + 1,
                 last_status := Some ''success''\<rparr>;
          (nr, st2) = calculate_next_run E s1 st1;
          s2 = s1\<lparr>next_run := nr\<rparr>;
          st3 = modify_schedule sid (\<lambda>x. s2) st2;
          (t2, st4) = now st3;
          st5 = history_add sid s2 ''success'' (total_microseconds t2 t0)
                  ''Backup completado correctamente'' st4
      in logger INFO (check_emoji @ '' Backup programado completado: '' @ name s2) st5)"

text \<open>The handler \<^verbatim>\<open>except Exception as e\<close>.\<close>

definition on_failure :: "string \<Rightarrow> ScheduleConfig \<Rightarrow> datetime \<Rightarrow> exn \<Rightarrow> state \<Rightarrow> state" where
  "on_failure sid s t0 e st =
     (let s1 = s\<lparr>last_status := Some ''failed''\<rparr>;
          st1 = modify_schedule sid (\<lambda>x. s1) st;
          (t1, st2) = now st1;
          st3 = history_add sid s1 ''failed'' (total_microseconds t1 t0) (str_exn e) st2
      in logger ERROR
           (cross_emoji @ '' Error en backup programado '' @ name s1 @ '': '' @ str_exn e) st3)"

text \<open>The \<^verbatim>\<open>finally\<close> block.\<close>

definition finally_block :: "state \<Rightarrow> state" where
  "finally_block st = save_schedules (st\<lparr>running_backup := False\<rparr>)"

text \<open>
  The rest of the function once the callbacks are over: \<open>r\<close> is the exception that
  ended the body of the \<^verbatim>\<open>try\<close>, if any. The schedule object is the one the firing
  holds; it is read back from the dictionary, which nothing else replaces.
\<close>

definition current_schedule :: "string \<Rightarrow> ScheduleConfig \<Rightarrow> state \<Rightarrow> ScheduleConfig" where
  "current_schedule sid s st = (case map_of (schedules st) sid of None \<Rightarrow> s | Some x \<Rightarrow> x)"

definition complete ::
  "env \<Rightarrow> string \<Rightarrow> ScheduleConfig \<Rightarrow> datetime \<Rightarrow> exn option \<Rightarrow> state \<Rightarrow> fire_outcome \<times> state" where
  "complete E sid s0 t0 r st =
     (let s = current_schedule sid s0 st in
      case r of
        None \<Rightarrow> (Succeeded, finally_block (on_success E sid s t0 st))
      | Some e \<Rightarrow>
          if is_Exception e
          then (Failed e, finally_block (on_failure sid s t0 e st))
          else (Propagated e, finally_block st))"

text \<open>
  A callback is given by what its invocations do: \<open>cb k backup_type schedule_id\<close> is the
  exception the \<open>k\<close>-th invocation of a firing raises, \<open>None\<close> when it returns.
\<close>

type_synonym callback = "nat \<Rightarrow> string \<Rightarrow> string \<Rightarrow> exn option"

fun await_all :: "callback \<Rightarrow> nat \<Rightarrow> string \<Rightarrow> string list \<Rightarrow> exn option" where
  "await_all cb k sid [] = None"
| "await_all cb k sid (b # bs) =
     (case cb k b sid of Some e \<Rightarrow> Some e | None \<Rightarrow> await_all cb (Suc k) sid bs)"

text \<open>One firing that runs from start to end with nothing else in between.\<close>

definition execute_scheduled_backup ::
  "env \<Rightarrow> callback \<Rightarrow> string \<Rightarrow> state \<Rightarrow> fire_outcome \<times> state" where
  "execute_scheduled_backup E cb sid st =
     (case begin_firing sid st of
        (Skip out, st1) \<Rightarrow> (out, st1)
      | (Acquired s t0, st1) \<Rightarrow>
          complete E sid s t0
            (case invocations st1 s of Inl e \<Rightarrow> Some e | Inr bs \<Rightarrow> await_all cb 0 sid bs) st1)"


section \<open>Firings that interleave (asyncio tasks)\<close>

text \<open>
  A coroutine runs without interruption from one \<^verbatim>\<open>await\<close> to the next. A task that
  executes \<^verbatim>\<open>_execute_scheduled_backup\<close> is therefore in one of three places:
  created and not yet started, suspended in \<^verbatim>\<open>await self.backup_callback(...)\<close>
  (the invocation is in flight), or ended.
\<close>

datatype task_pc =
    Created
  | Awaiting ScheduleConfig datetime nat string "string list"
  | Ended fire_outcome

record task =
  task_sid :: string
  task_pc :: task_pc

record system =
  sched :: state
  tasks :: "task list"

text \<open>A task starts: it runs to its first \<^verbatim>\<open>await\<close>, or to its end.\<close>

definition start_task :: "env \<Rightarrow> string \<Rightarrow> state \<Rightarrow> task_pc \<times> state" where
  "start_task E sid st =
     (case begin_firing sid st of
        (Skip out, st1) \<Rightarrow> (Ended out, st1)
      | (Acquired s t0, st1) \<Rightarrow>
          (case invocations st1 s of
             Inl e \<Rightarrow> (let (out, st2) = complete E sid s t0 (Some e) st1 in (Ended out, st2))
           | Inr [] \<Rightarrow> (let (out, st2) = complete E sid s t0 None st1 in (Ended out, st2))
           | Inr (b # bs) \<Rightarrow> (Awaiting s t0 0 b bs, st1)))"

text \<open>The awaited invocation is over: the task runs to its next \<^verbatim>\<open>await\<close>, or to its end.\<close>

definition resume_task ::
  "env \<Rightarrow> string \<Rightarrow> ScheduleConfig \<Rightarrow> datetime \<Rightarrow> nat \<Rightarrow> string list \<Rightarrow> exn option \<Rightarrow> state
     \<Rightarrow> task_pc \<times> state" where
  "resume_task E sid s t0 k rest r st =
     (case r of
        Some e \<Rightarrow> (let (out, st1) = complete E sid s t0 (Some e) st in (Ended out, st1))
      | None \<Rightarrow>
          (case rest of
             [] \<Rightarrow> (let (out, st1) = complete E sid s t0 None st in (Ended out, st1))
           | b # bs \<Rightarrow> (Awaiting s t0 (Suc k) b bs, st)))"

text \<open>
  What the event loop can do: dispatch a firing for a schedule id (a timer of APScheduler
  fires, each firing is a task of its own), call \<^verbatim>\<open>run_now\<close>, let task \<open>i\<close> start, or
  deliver to task \<open>i\<close> the result of the invocation it awaits. An event that names a task
  which is not in the right place does nothing. The other operations of the scheduler
  are synchronous calls that neither read nor write \<^verbatim>\<open>_running_backup\<close>; they are
  not among the events.
\<close>

datatype event =
    TimerFires string
  | RunNow string
  | Starts nat
  | Returns nat "exn option"

definition run_now :: "string \<Rightarrow> system \<Rightarrow> bool \<times> system" where
  "run_now sid sys =
     (if map_of (schedules (sched sys)) sid \<noteq> None
      then (True, sys\<lparr>tasks := tasks sys @ [\<lparr>task_sid = sid, task_pc = Created\<rparr>]\<rparr>)
      else (False, sys))"

definition step :: "env \<Rightarrow> system \<Rightarrow> event \<Rightarrow> system" where
  "step E sys ev =
     (case ev of
        TimerFires sid \<Rightarrow> sys\<lparr>tasks := tasks sys @ [\<lparr>task_sid = sid, task_pc = Created\<rparr>]\<rparr>
      | RunNow sid \<Rightarrow> snd (run_now sid sys)
      | Starts i \<Rightarrow>
          (if i < length (tasks sys) then
             (case task_pc (tasks sys ! i) of
                Created \<Rightarrow>
                  (let (pc, st) = start_task E (task_sid (tasks sys ! i)) (sched sys)
                   in \<lparr>sched = st, tasks = (tasks sys)[i := (tasks sys ! i)\<lparr>task_pc := pc\<rparr>]\<rparr>)
              | _ \<Rightarrow> sys)
           else sys)
      | Returns i r \<Rightarrow>
          (if i < length (tasks sys) then
             (case task_pc (tasks sys ! i) of
                Awaiting s t0 k b rest \<Rightarrow>
                  (let (pc, st) = resume_task E (task_sid (tasks sys ! i)) s t0 k rest r (sched sys)
                   in \<lparr>sched = st, tasks = (tasks sys)[i := (tasks sys ! i)\<lparr>task_pc := pc\<rparr>]\<rparr>)
              | _ \<Rightarrow> sys)
           else sys))"

definition run :: "env \<Rightarrow> system \<Rightarrow> event list \<Rightarrow> system" where
  "run E sys evs = foldl (step E) sys evs"

definition in_flight :: "task \<Rightarrow> bool" where
  "in_flight t = (case task_pc t of Awaiting s t0 k b rest \<Rightarrow> True | _ \<Rightarrow> False)"

definition flights :: "system \<Rightarrow> nat" where
  "flights sys = length (filter in_flight (tasks sys))"


section \<open>Updating a schedule\<close>

text \<open>
  The conversion \<^verbatim>\<open>update_schedule\<close> applies to a value before it stores it: a
  \<^verbatim>\<open>str\<close> given for \<^verbatim>\<open>schedule_type\<close> or \<^verbatim>\<open>status\<close> becomes the member of the
  enumeration with that value.
\<close>

definition update_value :: "field \<Rightarrow> pyval \<Rightarrow> exn + pyval" where
  "update_value f v =
     (if f = F_schedule_type then
        (case str_content v of None \<Rightarrow> Inr v | Some x \<Rightarrow> type_member x)
      else if f = F_status then
        (case str_content v of None \<Rightarrow> Inr v | Some x \<Rightarrow> status_member x)
      else Inr v)"

text \<open>
  The loop over \<^verbatim>\<open>updates.items()\<close>. An exception leaves the loop at once; what was
  stored before stays stored.
\<close>

fun apply_updates :: "pydict \<Rightarrow> ScheduleConfig \<Rightarrow> error option \<times> ScheduleConfig" where
  "apply_updates [] s = (None, s)"
| "apply_updates ((key, v) # kvs) s =
     (case field_of_key key of
        None \<Rightarrow> apply_updates kvs s
      | Some f \<Rightarrow>
          if key \<in> set [''id'', ''created_at''] then apply_updates kvs s
          else
            (case update_value f v of
               Inl e \<Rightarrow> (Some (Raised e), s)
             | Inr v' \<Rightarrow>
                 (case setattr s f v' of
                    None \<Rightarrow> (Some (IllTyped key), s)
                  | Some s' \<Rightarrow> apply_updates kvs s')))"

text \<open>
  \<^verbatim>\<open>_register_schedule\<close> and \<^verbatim>\<open>_unregister_schedule\<close>. The job's
  \<^verbatim>\<open>next_run_time\<close> is computed by APScheduler from its own reading of the clock.
\<close>

definition register_schedule :: "env \<Rightarrow> ScheduleConfig \<Rightarrow> state \<Rightarrow> ScheduleConfig \<times> state" where
  "register_schedule E s st =
     (let st1 = st\<lparr>registered := removeAll (id_field s) (registered st)\<rparr> in
      case get_trigger E s of
        Inl e \<Rightarrow>
          (s, logger ERROR (''Error registrando schedule '' @ name s @ '': '' @ str_exn e) st1)
      | Inr tr \<Rightarrow>
          (let st2 = st1\<lparr>registered := registered st1 @ [id_field s]\<rparr>;
               (t, st3) = now st2;
               s1 = (case job_next_run_time E tr t of
                       None \<Rightarrow> s
                     | Some n \<Rightarrow> s\<lparr>next_run := Some (isoformat n)\<rparr>)
           in (s1, logger INFO (''Schedule registrado: '' @ name s1 @ '' (''
                                 @ format_schedule_type E (schedule_type s1) @ '')'') st3)))"

definition unregister_schedule :: "string \<Rightarrow> state \<Rightarrow> state" where
  "unregister_schedule sid st =
     (if sid \<in> set (registered st)
      then logger INFO (''Schedule eliminado del scheduler: '' @ sid)
             (st\<lparr>registered := removeAll sid (registered st)\<rparr>)
      else st)"

text \<open>
  \<^verbatim>\<open>update_schedule\<close> returns \<open>None\<close> for an unknown id, otherwise the schedule or the
  error that ended the call. The schedule object is updated in place, so the state
  holds what the loop stored even when the call ends with an exception.
\<close>

definition update_schedule ::
  "env \<Rightarrow> string \<Rightarrow> pydict \<Rightarrow> state \<Rightarrow> (error + ScheduleConfig) option \<times> state" where
  "update_schedule E sid updates st =
     (case map_of (schedules st) sid of
        None \<Rightarrow> (None, st)
      | Some s \<Rightarrow>
          (case apply_updates updates s of
             (Some e, s1) \<Rightarrow> (Some (Inl e), modify_schedule sid (\<lambda>x. s1) st)
           | (None, s1) \<Rightarrow>
               (let (t, st1) = now st;
                    s2 = s1\<lparr>updated_at := isoformat t\<rparr>;
                    (nr, st2) = calculate_next_run E s2 st1;
                    s3 = s2\<lparr>next_run := nr\<rparr>;
                    (s4, st3) =
                      (if status s3 = ACTIVE \<and> scheduler_running st2
                       then register_schedule E s3 st2
                       else (s3, unregister_schedule sid st2));
                    st4 = save_schedules (modify_schedule sid (\<lambda>x. s4) st3)
                in (Some (Inr s4), st4))))"

definition pause_schedule ::
  "env \<Rightarrow> string \<Rightarrow> state \<Rightarrow> (error + ScheduleConfig) option \<times> state" where
  "pause_schedule E sid st = update_schedule E sid [(''status'', PStatus PAUSED)] st"

definition resume_schedule ::
  "env \<Rightarrow> string \<Rightarrow> state \<Rightarrow> (error + ScheduleConfig) option \<times> state" where
  "resume_schedule E sid st = update_schedule E sid [(''status'', PStatus ACTIVE)] st"


section \<open>Sample values\<close>

text \<open>
  Concrete values for the examples that follow the theorems. \<open>stub_env\<close> stands in for
  the libraries there: whatever the trigger, its next fire time is the reference time
  one year later; it parses two-digit numbers only and no ISO date.
\<close>

definition digit_of :: "char \<Rightarrow> int option" where
  "digit_of c =
     (let n = (of_char c :: nat) in if 48 \<le> n \<and> n \<le> 57 then Some (int n - 48) else None)"

definition two_digits :: "string \<Rightarrow> int option" where
  "two_digits x =
     (case map digit_of x of [Some a, Some b] \<Rightarrow> Some (a * 10 + b) | _ \<Rightarrow> None)"

definition stub_env :: env where
  "stub_env =
     \<lparr>croniter_get_next = (\<lambda>e t. Inr (t\<lparr>dt_year := dt_year t + 1\<rparr>)),
      trigger_error = (\<lambda>tr. None),
      get_next_fire_time = (\<lambda>tr t. Inr (Some (t\<lparr>dt_year := dt_year t + 1\<rparr>))),
      job_next_run_time = (\<lambda>tr t. Some (t\<lparr>dt_year := dt_year t + 1\<rparr>)),
      int_of_str = two_digits,
      fromisoformat = (\<lambda>x. None),
      format_schedule_type = ScheduleType_value\<rparr>"

definition sample_id :: string where
  "sample_id = ''a1b2c3d4e5f6''"

definition sample_schedule :: ScheduleConfig where
  "sample_schedule =
     \<lparr>id_field = sample_id, name = ''nightly'', description = ''every night'',
      backup_types = [''mongodb'', ''postgres''], schedule_type = DAILY, status = ACTIVE,
      cron_expression = None, interval_minutes = None, time_of_day = Some ''02:00'',
      days_of_week = None, days_of_month = None, run_date = None,
      created_at = ''2023-12-24T08:30:00'', updated_at = ''2023-12-24T08:30:00'',
      last_run = None, next_run = Some ''2024-01-02T02:00:00'', run_count = 0,
      last_status = None, retry_on_failure = True, max_retries = 3,
      notification_email = None, sequential_execution = True\<rparr>"

definition sample_clock :: "nat \<Rightarrow> datetime" where
  "sample_clock n = sample_time\<lparr>dt_minute := n div 60, dt_second := n mod 60\<rparr>"

definition sample_state :: state where
  "sample_state =
     \<lparr>schedules = [(sample_id, sample_schedule)], history = ScheduleHistory_init 100,
      running_backup = False, has_callback = True, scheduler_running = True,
      registered = [sample_id], config_file = Absent, disk_error = None, logged = [],
      clock_readings = sample_clock, ticks = 0,
      uuid_source = (\<lambda>n. ''0f8fad5b-d9cb-469f-a165-70867728950e''), uuid_count = 0\<rparr>"



definition sample_uuids :: "nat \<Rightarrow> string" where
  "sample_uuids n = ''0f8fad5b-d9cb-469f-a165-70867728950e''"










text \<open>A callback that always returns, one that always raises, and a schedule that is due.\<close>

definition succeeding_callback :: callback where
  "succeeding_callback k backup_type schedule_id = None"

definition failing_callback :: callback where
  "failing_callback k backup_type schedule_id = Some (ValueError ''mongodb is not a valid BackupType'')"

definition due_schedule :: ScheduleConfig where
  "due_schedule = sample_schedule\<lparr>next_run := Some ''2024-01-01T10:00:00''\<rparr>"

definition due_state :: state where
  "due_state = sample_state\<lparr>schedules := [(sample_id, due_schedule)]\<rparr>"

text \<open>The state in which a firing that has taken the gate awaits its first callback.\<close>

definition acquired :: "ScheduleConfig \<Rightarrow> state \<Rightarrow> state" where
  "acquired s st =
     logger INFO (clock_emoji @ '' Ejecutando backup programado: '' @ name s)
       (st\<lparr>running_backup := True, ticks := Suc (ticks st)\<rparr>)"


text \<open>Two firings of the sample schedule dispatched at the same instant, and a paused schedule.\<close>

definition idle_system :: system where
  "idle_system = \<lparr>sched = sample_state, tasks = []\<rparr>"

definition two_firings :: "event list" where
  "two_firings = [TimerFires sample_id, RunNow sample_id, Starts 0, Starts 1]"

text \<open>
  The gate is set exactly while one invocation is in flight, and at most one is.
\<close>

definition gate_invariant :: "system \<Rightarrow> bool" where
  "gate_invariant sys = (flights sys \<le> 1 \<and> (running_backup (sched sys) \<longleftrightarrow> flights sys = 1))"

definition paused_system :: system where
  "paused_system =
     \<lparr>sched = sample_state\<lparr>schedules := [(sample_id, sample_schedule\<lparr>status := PAUSED\<rparr>)]\<rparr>,
      tasks = []\<rparr>"

definition run_now_then_start :: "event list" where
  "run_now_then_start = [RunNow sample_id, Starts 0]"


section \<open>The task tracker (main.py)\<close>

datatype BackupType = MONGODB | MILVUS | POSTGRES | ADDITIONAL | GLOBAL

datatype BackupStatus = PENDING | RUNNING | COMPLETED | FAILED

fun BackupType_value :: "BackupType \<Rightarrow> string" where
  "BackupType_value MONGODB = ''mongodb''"
| "BackupType_value MILVUS = ''milvus''"
| "BackupType_value POSTGRES = ''postgres''"
| "BackupType_value ADDITIONAL = ''additional''"
| "BackupType_value GLOBAL = ''global''"

definition BackupType_of_str :: "string \<Rightarrow> exn + BackupType" where
  "BackupType_of_str x =
     (case find (\<lambda>t. BackupType_value t = x) [MONGODB, MILVUS, POSTGRES, ADDITIONAL, GLOBAL] of
        Some t \<Rightarrow> Inr t
      | None \<Rightarrow> Inl (ValueError (x @ '' is not a valid BackupType'')))"

text \<open>
  A task record. \<open>tk_schedule_id\<close> is \<open>None\<close> in the records of manual dispatches,
  which have neither the key \<^verbatim>\<open>scheduled\<close> nor the key \<^verbatim>\<open>schedule_id\<close>.
\<close>

record backup_task =
  tk_task_id :: string
  tk_backup_type :: string
  tk_status :: BackupStatus
  tk_started_at :: string
  tk_completed_at :: "string option"
  tk_output :: "string list"
  tk_error :: "string option"
  tk_scheduled :: bool
  tk_schedule_id :: "string option"

type_synonym backup_tasks = "(string \<times> backup_task) list"

text \<open>
  The three places that dispatch a task and the id each of them forms from its
  target and the clock: \<^verbatim>\<open>start_backup\<close>, \<^verbatim>\<open>start_restore\<close> and
  \<^verbatim>\<open>scheduled_backup_callback\<close>.
\<close>

datatype dispatch = Backup BackupType | Restore string | Scheduled string

fun task_id_of :: "dispatch \<Rightarrow> datetime \<Rightarrow> string" where
  "task_id_of (Backup bt) t = ''backup_'' @ BackupType_value bt @ ''_'' @ strftime_stamp t"
| "task_id_of (Restore ts) t = ''restore_'' @ ts @ ''_'' @ strftime_stamp t"
| "task_id_of (Scheduled bt) t = ''scheduled_'' @ bt @ ''_'' @ strftime_stamp t"

datatype http_error = HTTPException nat string

definition pending_task :: "string \<Rightarrow> string \<Rightarrow> datetime \<Rightarrow> backup_task" where
  "pending_task tid kind started =
     \<lparr>tk_task_id = tid, tk_backup_type = kind, tk_status = PENDING,
      tk_started_at = isoformat started, tk_completed_at = None, tk_output = [],
      tk_error = None, tk_scheduled = False, tk_schedule_id = None\<rparr>"

text \<open>
  \<^verbatim>\<open>start_backup\<close> and \<^verbatim>\<open>start_restore\<close>: the two checks, then the id from one
  reading of the clock and the record, with a second reading, stored under the id. The
  runner is started in the background; the response is the id and a message.
\<close>

definition docker_down :: http_error where
  "docker_down = HTTPException 503 (''Docker no est'' @ a_acute @ '' corriendo'')"

definition qnap_unmounted :: http_error where
  "qnap_unmounted = HTTPException 503 (''QNAP no est'' @ a_acute @ '' montado'')"


definition start_restore ::
  "bool \<Rightarrow> bool \<Rightarrow> string \<Rightarrow> datetime \<Rightarrow> datetime \<Rightarrow> backup_tasks
     \<Rightarrow> http_error + ((string \<times> string) \<times> backup_tasks)" where
  "start_restore docker qnap ts t1 t2 tks =
     (if \<not> docker then Inl docker_down
      else if \<not> qnap then Inl qnap_unmounted
      else
        (let tid = task_id_of (Restore ts) t1
         in Inr ((tid, ''Restauraci'' @ o_acute @ ''n iniciada para '' @ ts),
                 AList.update tid (pending_task tid ''restore'' t2) tks)))"

text \<open>
  \<^verbatim>\<open>scheduled_backup_callback\<close> up to the call of the runner: the record is stored
  first, then \<^verbatim>\<open>BackupType(backup_type)\<close> may raise.
\<close>

definition scheduled_backup_callback ::
  "string \<Rightarrow> string \<Rightarrow> datetime \<Rightarrow> datetime \<Rightarrow> backup_tasks
     \<Rightarrow> (exn + (string \<times> BackupType)) \<times> backup_tasks" where
  "scheduled_backup_callback backup_type schedule_id t1 t2 tks =
     (let tid = task_id_of (Scheduled backup_type) t1;
          rec = (pending_task tid backup_type t2)
                  \<lparr>tk_output := [clock_emoji @ '' Backup programado iniciado (schedule: ''
                                  @ schedule_id @ '')''],
                   tk_scheduled := True, tk_schedule_id := Some schedule_id\<rparr>;
          tks1 = AList.update tid rec tks
      in (case BackupType_of_str backup_type of
            Inl e \<Rightarrow> (Inl e, tks1)
          | Inr bt \<Rightarrow> (Inr (tid, bt), tks1)))"




datatype runner_event =
    Begins string
  | Emits string string
  | Reports string string
  | Exits string int datetime
  | Completes string datetime
  | Raises string exn datetime




text \<open>
  One whole run of \<^verbatim>\<open>run_backup_script\<close> whose process starts: the lines of the
  process, its exit code, the end time.
\<close>

definition run_backup_script :: "string \<Rightarrow> string list \<Rightarrow> int \<Rightarrow> datetime \<Rightarrow> runner_event list" where
  "run_backup_script tid raw_lines code t = Begins tid # map (Emits tid) raw_lines @ [Exits tid code t]"












section \<open>The history is capped and newest first\<close>

lemma ScheduleHistory_add_max: "max_entries (ScheduleHistory_add h c) = max_entries h"
  by (simp add: ScheduleHistory_add_def Let_def)

lemma ScheduleHistory_add_take:
  assumes "0 \<le> max_entries h"
  shows "entries (ScheduleHistory_add h c) = take (nat (max_entries h)) (entry_of c # entries h)"
  using assms by (auto simp: ScheduleHistory_add_def Let_def slice_to_def)

lemma add_all_max: "max_entries (add_all h cs) = max_entries h"
  unfolding add_all_def
  by (induction cs arbitrary: h) (simp_all add: ScheduleHistory_add_max)

lemma add_all_snoc: "add_all h (cs @ [c]) = ScheduleHistory_add (add_all h cs) c"
  by (simp add: add_all_def)

lemma add_all_entries:
  assumes "0 \<le> m"
  shows "entries (add_all (ScheduleHistory_init m) cs) = take (nat m) (rev (map entry_of cs))"
proof (induction cs rule: rev_induct)
  case Nil
  show ?case by (simp add: add_all_def ScheduleHistory_init_def)
next
  case (snoc c cs)
  let ?h = "add_all (ScheduleHistory_init m) cs"
  have mx: "max_entries ?h = m"
    by (simp add: add_all_max ScheduleHistory_init_def)
  have "entries (ScheduleHistory_add ?h c) = take (nat m) (entry_of c # entries ?h)"
    using ScheduleHistory_add_take [of ?h c] assms mx by simp
  also have "\<dots> = take (nat m) (entry_of c # take (nat m) (rev (map entry_of cs)))"
    using snoc.IH by simp
  also have "\<dots> = take (nat m) (entry_of c # rev (map entry_of cs))"
    by (cases "nat m") (simp_all add: min_def)
  finally show ?case by (simp add: add_all_snoc)
qed

text \<open>
  Claim C5. A history created with a cap \<open>m \<ge> 1\<close> (the scheduler uses the default, 100)
  and then fed any sequence of \<^verbatim>\<open>add\<close> calls: the list never has more than \<open>m\<close>
  entries; it is the calls' entries newest first, cut after the first \<open>m\<close>, so what is
  missing is always the oldest; the entry just added is at the head; and a single add
  on a full list keeps everything but its last (oldest) entry behind the new head.
\<close>

theorem history_capped_newest_first:
  assumes "1 \<le> m"
  shows "int (length (entries (add_all (ScheduleHistory_init m) cs))) \<le> m
       \<and> entries (add_all (ScheduleHistory_init m) cs) = take (nat m) (rev (map entry_of cs))
       \<and> entries (add_all (ScheduleHistory_init m) (cs @ [c]))
           = entry_of c # take (nat m - 1) (entries (add_all (ScheduleHistory_init m) cs))
       \<and> (int (length (entries (add_all (ScheduleHistory_init m) cs))) = m \<longrightarrow>
            entries (add_all (ScheduleHistory_init m) (cs @ [c]))
              = entry_of c # butlast (entries (add_all (ScheduleHistory_init m) cs)))"
proof -
  let ?h = "add_all (ScheduleHistory_init m) cs"
  have m0: "0 \<le> m" using assms by simp
  have e: "entries ?h = take (nat m) (rev (map entry_of cs))"
    by (rule add_all_entries [OF m0])
  have len: "int (length (entries ?h)) \<le> m"
    using e m0 by simp
  have mx: "max_entries ?h = m"
    by (simp add: add_all_max ScheduleHistory_init_def)
  obtain k where k: "nat m = Suc k"
    using assms by (cases "nat m") auto
  have step: "entries (add_all (ScheduleHistory_init m) (cs @ [c]))
                = entry_of c # take (nat m - 1) (entries ?h)"
    using ScheduleHistory_add_take [of ?h c] m0 mx k by (simp add: add_all_snoc)
  have full: "int (length (entries ?h)) = m \<longrightarrow>
                entries (add_all (ScheduleHistory_init m) (cs @ [c]))
                  = entry_of c # butlast (entries ?h)"
  proof
    assume "int (length (entries ?h)) = m"
    then have "length (entries ?h) = Suc k" using k by linarith
    then have "take (nat m - 1) (entries ?h) = butlast (entries ?h)"
      using k by (simp add: butlast_conv_take)
    then show "entries (add_all (ScheduleHistory_init m) (cs @ [c]))
                 = entry_of c # butlast (entries ?h)"
      using step by simp
  qed
  from len e step full show ?thesis by blast
qed

theorem history_capped_newest_first_witness:
  "(1::int) \<le> 2
   \<and> map he_message
         (entries (add_all (ScheduleHistory_init 2)
                     [sample_call ''first'', sample_call ''second'', sample_call ''third'']))
       = [''third'', ''second'']
   \<and> map he_message
         (entries (add_all (ScheduleHistory_init 2)
                     ([sample_call ''first'', sample_call ''second'', sample_call ''third'']
                      @ [sample_call ''fourth''])))
       = [''fourth'', ''third'']"
  using history_capped_newest_first
          [of 2 "[sample_call ''first'', sample_call ''second'', sample_call ''third'']"
              "sample_call ''fourth''"]
  by (simp add: entry_of_def sample_call_def numeral_2_eq_2)


section \<open>Updates leave the identity of a schedule alone\<close>








lemma schedules_logger: "schedules (logger lv m st) = schedules st"
  by (simp add: logger_def)








section \<open>Persisting and reloading schedules\<close>

lemma ScheduleType_of_str_value: "ScheduleType_of_str (ScheduleType_value t) = Inr t"
  by (cases t) (simp_all add: ScheduleType_of_str_def)

lemma ScheduleStatus_of_str_value: "ScheduleStatus_of_str (ScheduleStatus_value t) = Inr t"
  by (cases t) (simp_all add: ScheduleStatus_of_str_def)

lemma as_list_str: "as_list as_str (json_value (str_list_val xs)) = Some xs"
proof -
  have "all_some (map (\<lambda>x. as_str (json_value (PStr x))) xs) = Some xs"
    by (induction xs) simp_all
  then show ?thesis by (simp add: str_list_val_def comp_def)
qed

lemma as_list_int: "as_list as_int (json_value (int_list_val xs)) = Some xs"
proof -
  have "all_some (map (\<lambda>x. as_int (json_value (PInt x))) xs) = Some xs"
    by (induction xs) simp_all
  then show ?thesis by (simp add: int_list_val_def comp_def)
qed

lemma as_opt_str: "as_opt as_str (json_value (opt_val PStr x)) = Some x"
  by (cases x) (simp_all add: opt_val_def)

lemma as_opt_int: "as_opt as_int (json_value (opt_val PInt x)) = Some x"
  by (cases x) (simp_all add: opt_val_def)

lemma as_opt_int_list: "as_opt (as_list as_int) (json_value (opt_val int_list_val x)) = Some x"
proof (cases x)
  case None then show ?thesis by (simp add: opt_val_def)
next
  case (Some xs)
  have "json_value (int_list_val xs) \<noteq> PNone" by (simp add: int_list_val_def)
  then show ?thesis using Some as_list_int [of xs]
    by (cases "json_value (int_list_val xs)") (simp_all add: opt_val_def)
qed

lemma from_dict_json_to_dict:
  "from_dict (json_value (PDict (to_dict s))) st = (Inr s, st)"
  apply (cases s)
  apply (simp add: from_dict_def to_dict_def field_list_def convert_enum_def dict_get_def
      dict_set_def type_member_def status_member_def ScheduleType_of_str_value
      ScheduleStatus_of_str_value construct_def field_of_key_def required_fields_def
      defaults_def as_list_str as_list_int as_opt_str as_opt_int as_opt_int_list)
  done


lemma as_list_str_plain: "as_list as_str (str_list_val xs) = Some xs"
proof -
  have "all_some (map (\<lambda>x. as_str (PStr x)) xs) = Some xs"
    by (induction xs) simp_all
  then show ?thesis by (simp add: str_list_val_def comp_def)
qed

lemma as_list_int_plain: "as_list as_int (int_list_val xs) = Some xs"
proof -
  have "all_some (map (\<lambda>x. as_int (PInt x)) xs) = Some xs"
    by (induction xs) simp_all
  then show ?thesis by (simp add: int_list_val_def comp_def)
qed

lemma as_opt_str_plain: "as_opt as_str (opt_val PStr x) = Some x"
  by (cases x) (simp_all add: opt_val_def)

lemma as_opt_int_plain: "as_opt as_int (opt_val PInt x) = Some x"
  by (cases x) (simp_all add: opt_val_def)

lemma as_opt_int_list_plain: "as_opt (as_list as_int) (opt_val int_list_val x) = Some x"
proof (cases x)
  case None then show ?thesis by (simp add: opt_val_def)
next
  case (Some xs)
  then show ?thesis using as_list_int_plain [of xs]
    by (simp add: opt_val_def int_list_val_def)
qed

lemma from_dict_to_dict:
  "from_dict (PDict (to_dict s)) st = (Inr s, st)"
  apply (cases s)
  apply (simp add: from_dict_def to_dict_def field_list_def convert_enum_def dict_get_def
      dict_set_def type_member_def status_member_def ScheduleType_of_str_value
      ScheduleStatus_of_str_value construct_def field_of_key_def required_fields_def
      defaults_def as_list_str_plain as_list_int_plain as_opt_str_plain as_opt_int_plain
      as_opt_int_list_plain)
  done

lemma update_fresh: "k \<notin> fst ` set al \<Longrightarrow> AList.update k v al = al @ [(k, v)]"
  by (induction al) auto

lemma load_loop_saved:
  "load_loop (map (\<lambda>kv. json_value (PDict (to_dict (snd kv)))) xs) st
     = (None, st\<lparr>schedules :=
                   foldl (\<lambda>acc kv. AList.update (id_field (snd kv)) (snd kv) acc) (schedules st) xs\<rparr>)"
proof (induction xs arbitrary: st)
  case Nil
  show ?case by simp
next
  case (Cons kv xs)
  show ?case
    by (simp only: list.map load_loop.simps from_dict_json_to_dict prod.case sum.case
          Cons.IH foldl_Cons) simp
qed

lemma foldl_update_keyed:
  assumes "distinct (map fst (acc @ xs))"
      and "\<forall>kv \<in> set xs. fst kv = id_field (snd kv)"
  shows "foldl (\<lambda>a kv. AList.update (id_field (snd kv)) (snd kv) a) acc xs = acc @ xs"
  using assms
proof (induction xs arbitrary: acc)
  case Nil
  show ?case by simp
next
  case (Cons kv xs)
  have k: "fst kv = id_field (snd kv)" using Cons.prems(2) by simp
  have "fst kv \<notin> fst ` set acc" using Cons.prems(1) by auto
  then have u: "AList.update (id_field (snd kv)) (snd kv) acc = acc @ [kv]"
    using update_fresh [of "fst kv" acc "snd kv"] k by (cases kv) simp
  have "foldl (\<lambda>a kv. AList.update (id_field (snd kv)) (snd kv) a) (acc @ [kv]) xs
          = (acc @ [kv]) @ xs"
    using Cons.prems by (intro Cons.IH) auto
  then show ?case using u by simp
qed

lemma save_then_load:
  assumes "disk_error st = None"
      and "distinct (map fst (schedules st))"
      and "\<forall>kv \<in> set (schedules st). fst kv = id_field (snd kv)"
  shows "schedules (BackupScheduler_init cb (config_file (save_schedules st)) derr clk uuids)
           = schedules st"
proof -
  have f: "config_file (save_schedules st)
             = Document (saved_document (schedules st) (isoformat (clock_readings st (ticks st))))"
    using assms(1) by (simp add: save_schedules_def now_def logger_def)
  have fo: "foldl (\<lambda>a kv. AList.update (id_field (snd kv)) (snd kv) a) [] (schedules st)
              = schedules st"
    using foldl_update_keyed [of "[]" "schedules st"] assms(2,3) by simp
  have doc: "saved_document xs stamp
               = PDict [(''schedules'', PList (map (\<lambda>kv. json_value (PDict (to_dict (snd kv)))) xs)),
                        (''updated_at'', PStr stamp)]" for xs stamp
    by (simp add: saved_document_def comp_def)
  show ?thesis
    by (simp add: f doc BackupScheduler_init_def load_schedules_def dict_get_def
          load_loop_saved fo logger_def del: json_value.simps)
qed

text \<open>
  Claim C6. \<^verbatim>\<open>from_dict\<close> applied to what \<^verbatim>\<open>to_dict\<close> returns gives back the
  schedule, equal in every field, the members of the two enumerations included; so it
  does when the dictionary went through the JSON file in between, where the members
  are written as strings. For the job set: when the file can be written and every
  schedule is stored under its own id, a scheduler started on the file that
  \<^verbatim>\<open>_save_schedules\<close> wrote holds the same schedules, in the same order.
\<close>

theorem schedule_roundtrip:
  "from_dict (PDict (to_dict s)) st = (Inr s, st)
   \<and> from_dict (json_value (PDict (to_dict s))) st = (Inr s, st)
   \<and> (disk_error st0 = None \<and> distinct (map fst (schedules st0))
        \<and> (\<forall>kv \<in> set (schedules st0). fst kv = id_field (snd kv))
      \<longrightarrow> schedules (BackupScheduler_init cb (config_file (save_schedules st0)) derr clk uuids)
            = schedules st0)"
  using from_dict_to_dict [of s st] from_dict_json_to_dict [of s st]
        save_then_load [of st0 cb derr clk uuids]
  by blast

theorem schedule_roundtrip_witness:
  "disk_error sample_state = None \<and> distinct (map fst (schedules sample_state))
   \<and> map fst (schedules sample_state) = map (\<lambda>kv. id_field (snd kv)) (schedules sample_state)
   \<and> from_dict (json_value (PDict (to_dict sample_schedule))) sample_state
        = (Inr sample_schedule, sample_state)
   \<and> schedules (BackupScheduler_init True (config_file (save_schedules sample_state)) None
                  sample_clock sample_uuids)
        = [(sample_id, sample_schedule)]"
proof -
  have h: "disk_error sample_state = None \<and> distinct (map fst (schedules sample_state))
           \<and> (\<forall>kv \<in> set (schedules sample_state). fst kv = id_field (snd kv))"
    by (simp add: sample_state_def sample_schedule_def)
  have s: "schedules sample_state = [(sample_id, sample_schedule)]"
    by (simp add: sample_state_def)
  have k: "map fst (schedules sample_state)
             = map (\<lambda>kv. id_field (snd kv)) (schedules sample_state)"
    by (simp add: sample_state_def sample_schedule_def)
  show ?thesis
    using h s k schedule_roundtrip [of sample_schedule sample_state sample_state True None
                                       sample_clock sample_uuids]
    by simp
qed


section \<open>Loading a job set with a record that does not parse\<close>








section \<open>The next run\<close>









section \<open>What one firing does\<close>

lemma begin_firing_acquires:
  assumes "map_of (schedules st) sid = Some s" and "status s = ACTIVE" and "\<not> running_backup st"
  shows "begin_firing sid st = (Acquired s (clock_readings st (ticks st)), acquired s st)"
  using assms by (simp add: begin_firing_def now_def acquired_def)

lemma invocations_acquired: "invocations (acquired s st) x = invocations st x"
  by (simp add: invocations_def acquired_def logger_def)

lemma calculate_next_run_frame:
  assumes "calculate_next_run E s st = (nr, st2)"
  shows "st2 = st\<lparr>ticks := ticks st2, logged := logged st2\<rparr>"
  using assms
  by (auto simp: calculate_next_run_def now_def logger_def Let_def
           split: if_splits option.splits sum.splits prod.splits)

lemma map_of_replace:
  "map_of (map (\<lambda>kv. if fst kv = sid then (fst kv, c) else kv) xs) k
     = (if k = sid then map_option (\<lambda>x. c) (map_of xs k) else map_of xs k)"
  by (induction xs) auto

lemma success_effects:
  assumes found: "map_of (schedules st) sid = Some s"
  shows "\<exists>c.
           map_of (schedules (finally_block (on_success E sid s t0 st))) sid
             = Some (s\<lparr>last_run := Some (isoformat (clock_readings st (ticks st))),
                       run_count := run_count s + 1,
                       last_status := Some ''success'',
                       next_run := fst (calculate_next_run E
                                         (s\<lparr>last_run := Some (isoformat (clock_readings st (ticks st))),
                                            run_count := run_count s + 1,
                                            last_status := Some ''success''\<rparr>)
                                         (st\<lparr>ticks := Suc (ticks st)\<rparr>))\<rparr>)
         \<and> (\<forall>k. k \<noteq> sid \<longrightarrow>
                map_of (schedules (finally_block (on_success E sid s t0 st))) k = map_of (schedules st) k)
         \<and> history (finally_block (on_success E sid s t0 st)) = ScheduleHistory_add (history st) c
         \<and> ac_schedule_id c = sid \<and> ac_status c = ''success''
         \<and> ac_schedule_name c = name s \<and> ac_backup_types c = backup_types s
         \<and> ac_message c = ''Backup completado correctamente''
         \<and> \<not> running_backup (finally_block (on_success E sid s t0 st))"
proof -
  let ?s1 = "s\<lparr>last_run := Some (isoformat (clock_readings st (ticks st))),
               run_count := run_count s + 1, last_status := Some ''success''\<rparr>"
  obtain nr st2 where c: "calculate_next_run E ?s1 (st\<lparr>ticks := Suc (ticks st)\<rparr>) = (nr, st2)"
    by (cases "calculate_next_run E ?s1 (st\<lparr>ticks := Suc (ticks st)\<rparr>)")
  note fr = calculate_next_run_frame [OF c]
  have sch: "schedules st2 = schedules st" and h: "history st2 = history st"
    by (subst fr, simp)+
  let ?c = "\<lparr>ac_schedule_id = sid, ac_schedule_name = name s,
             ac_backup_types = backup_types s, ac_status = ''success'',
             ac_duration = total_microseconds (clock_readings st2 (ticks st2)) t0,
             ac_message = ''Backup completado correctamente'',
             ac_uuid = uuid_source st2 (uuid_count st2),
             ac_now = clock_readings st2 (Suc (ticks st2))\<rparr>"
  let ?st' = "finally_block (on_success E sid s t0 st)"
  have 1: "schedules ?st' = map (\<lambda>kv. if fst kv = sid then (fst kv, ?s1\<lparr>next_run := nr\<rparr>) else kv) (schedules st)"
    using c sch
    by (simp add: finally_block_def on_success_def history_add_def save_schedules_def
        now_def uuid4_def logger_def modify_schedule_def Let_def split: option.splits)
  have 2: "history ?st' = ScheduleHistory_add (history st) ?c"
    using c h
    by (simp add: finally_block_def on_success_def history_add_def save_schedules_def
        now_def uuid4_def logger_def modify_schedule_def Let_def split: option.splits)
  have 3: "\<not> running_backup ?st'"
    by (simp add: finally_block_def save_schedules_def now_def logger_def Let_def
        split: option.splits prod.splits)
  have 4: "map_of (schedules ?st') sid = Some (?s1\<lparr>next_run := nr\<rparr>)"
    using found by (simp add: 1 map_of_replace)
  have 5: "\<forall>k. k \<noteq> sid \<longrightarrow> map_of (schedules ?st') k = map_of (schedules st) k"
    by (simp add: 1 map_of_replace)
  have 6: "nr = fst (calculate_next_run E ?s1 (st\<lparr>ticks := Suc (ticks st)\<rparr>))"
    using c by simp
  show ?thesis
    apply (rule exI [of _ ?c])
    using 2 3 4 5 unfolding 6 by simp
qed


lemma failure_effects:
  assumes found: "map_of (schedules st) sid = Some s"
  shows "\<exists>c.
           map_of (schedules (finally_block (on_failure sid s t0 e st))) sid
             = Some (s\<lparr>last_status := Some ''failed''\<rparr>)
         \<and> (\<forall>k. k \<noteq> sid \<longrightarrow>
                map_of (schedules (finally_block (on_failure sid s t0 e st))) k = map_of (schedules st) k)
         \<and> map fst (schedules (finally_block (on_failure sid s t0 e st))) = map fst (schedules st)
         \<and> history (finally_block (on_failure sid s t0 e st)) = ScheduleHistory_add (history st) c
         \<and> ac_schedule_id c = sid \<and> ac_status c = ''failed''
         \<and> ac_schedule_name c = name s \<and> ac_backup_types c = backup_types s
         \<and> ac_message c = str_exn e
         \<and> \<not> running_backup (finally_block (on_failure sid s t0 e st))"
proof -
  let ?c = "\<lparr>ac_schedule_id = sid, ac_schedule_name = name s,
             ac_backup_types = backup_types s, ac_status = ''failed'',
             ac_duration = total_microseconds (clock_readings st (ticks st)) t0,
             ac_message = str_exn e,
             ac_uuid = uuid_source st (uuid_count st),
             ac_now = clock_readings st (Suc (ticks st))\<rparr>"
  let ?st' = "finally_block (on_failure sid s t0 e st)"
  have 1: "schedules ?st' = map (\<lambda>kv. if fst kv = sid then (fst kv, s\<lparr>last_status := Some ''failed''\<rparr>) else kv) (schedules st)"
    by (simp add: finally_block_def on_failure_def history_add_def save_schedules_def
        now_def uuid4_def logger_def modify_schedule_def Let_def split: option.splits)
  have 2: "history ?st' = ScheduleHistory_add (history st) ?c"
    by (simp add: finally_block_def on_failure_def history_add_def save_schedules_def
        now_def uuid4_def logger_def modify_schedule_def Let_def split: option.splits)
  have 3: "\<not> running_backup ?st'"
    by (simp add: finally_block_def save_schedules_def now_def logger_def Let_def
        split: option.splits prod.splits)
  have 4: "map_of (schedules ?st') sid = Some (s\<lparr>last_status := Some ''failed''\<rparr>)"
    using found by (simp add: 1 map_of_replace)
  have 5: "\<forall>k. k \<noteq> sid \<longrightarrow> map_of (schedules ?st') k = map_of (schedules st) k"
    by (simp add: 1 map_of_replace)
  have 7: "map fst (schedules ?st') = map fst (schedules st)"
    by (simp add: 1 comp_def if_distrib cong: if_cong)
  show ?thesis
    apply (rule exI [of _ ?c])
    using 2 3 4 5 7 by simp
qed

lemma acquired_fields:
  "schedules (acquired s st) = schedules st" "history (acquired s st) = history st"
  "ticks (acquired s st) = Suc (ticks st)" "clock_readings (acquired s st) = clock_readings st"
  by (simp_all add: acquired_def logger_def)

text \<open>
  Claim C4. A firing of an active schedule that finds the gate open and whose callback
  invocations all return ends as a success. The stored schedule is the old one with
  \<^verbatim>\<open>last_run\<close> set to the clock reading taken after the last callback,
  \<^verbatim>\<open>run_count\<close> one higher, \<^verbatim>\<open>last_status\<close> \<open>success\<close> and \<^verbatim>\<open>next_run\<close> what
  \<^verbatim>\<open>_calculate_next_run\<close> returns for the updated schedule at the next clock reading;
  no other field and no other schedule changes. The history is the old one after one
  \<^verbatim>\<open>add\<close> of a \<open>success\<close> entry for this schedule, and the gate is open again.
\<close>

theorem successful_firing:
  assumes found: "map_of (schedules st) sid = Some s"
      and active: "status s = ACTIVE"
      and free: "\<not> running_backup st"
      and ok: "\<exists>bs. invocations st s = Inr bs \<and> await_all cb 0 sid bs = None"
  shows "fst (execute_scheduled_backup E cb sid st) = Succeeded
       \<and> (\<exists>c stc.
             map_of (schedules (snd (execute_scheduled_backup E cb sid st))) sid
               = Some (s\<lparr>last_run := Some (isoformat (clock_readings st (Suc (ticks st)))),
                         run_count := run_count s + 1,
                         last_status := Some ''success'',
                         next_run := fst (calculate_next_run E
                                           (s\<lparr>last_run := Some (isoformat (clock_readings st (Suc (ticks st)))),
                                              run_count := run_count s + 1,
                                              last_status := Some ''success''\<rparr>) stc)\<rparr>)
           \<and> clock_readings stc = clock_readings st \<and> ticks stc = ticks st + 2
           \<and> (\<forall>k. k \<noteq> sid \<longrightarrow>
                  map_of (schedules (snd (execute_scheduled_backup E cb sid st))) k
                    = map_of (schedules st) k)
           \<and> history (snd (execute_scheduled_backup E cb sid st)) = ScheduleHistory_add (history st) c
           \<and> ac_schedule_id c = sid \<and> ac_status c = ''success''
           \<and> ac_schedule_name c = name s \<and> ac_backup_types c = backup_types s
           \<and> ac_message c = ''Backup completado correctamente''
           \<and> \<not> running_backup (snd (execute_scheduled_backup E cb sid st)))"
proof -
  let ?a = "acquired s st"
  let ?t0 = "clock_readings st (ticks st)"
  have fa: "map_of (schedules ?a) sid = Some s"
    using found by (simp add: acquired_fields)
  have ex: "execute_scheduled_backup E cb sid st
              = (Succeeded, finally_block (on_success E sid s ?t0 ?a))"
    using ok fa
    by (auto simp: execute_scheduled_backup_def begin_firing_acquires [OF found active free]
          invocations_acquired complete_def current_schedule_def)
  from success_effects [OF fa, of E ?t0]
  obtain c where c:
    "map_of (schedules (finally_block (on_success E sid s ?t0 ?a))) sid
       = Some (s\<lparr>last_run := Some (isoformat (clock_readings ?a (ticks ?a))),
                 run_count := run_count s + 1,
                 last_status := Some ''success'',
                 next_run := fst (calculate_next_run E
                                   (s\<lparr>last_run := Some (isoformat (clock_readings ?a (ticks ?a))),
                                      run_count := run_count s + 1,
                                      last_status := Some ''success''\<rparr>)
                                   (?a\<lparr>ticks := Suc (ticks ?a)\<rparr>))\<rparr>)"
    "\<forall>k. k \<noteq> sid \<longrightarrow>
       map_of (schedules (finally_block (on_success E sid s ?t0 ?a))) k = map_of (schedules ?a) k"
    "history (finally_block (on_success E sid s ?t0 ?a)) = ScheduleHistory_add (history ?a) c"
    "ac_schedule_id c = sid" "ac_status c = ''success''"
    "ac_schedule_name c = name s" "ac_backup_types c = backup_types s"
    "ac_message c = ''Backup completado correctamente''"
    "\<not> running_backup (finally_block (on_success E sid s ?t0 ?a))"
    by blast
  show ?thesis
    apply (simp only: ex fst_conv snd_conv)
    apply (rule conjI, rule refl)
    apply (rule exI [of _ c], rule exI [of _ "?a\<lparr>ticks := Suc (ticks ?a)\<rparr>"])
    using c by (simp add: acquired_fields)
qed


theorem successful_firing_witness:
  "map_of (schedules sample_state) sample_id = Some sample_schedule
   \<and> status sample_schedule = ACTIVE
   \<and> \<not> running_backup sample_state
   \<and> (\<exists>bs. invocations sample_state sample_schedule = Inr bs
            \<and> await_all succeeding_callback 0 sample_id bs = None)
   \<and> fst (execute_scheduled_backup stub_env succeeding_callback sample_id sample_state) = Succeeded
   \<and> map_option run_count
        (map_of (schedules (snd (execute_scheduled_backup stub_env succeeding_callback sample_id
                                   sample_state))) sample_id) = Some 1
   \<and> map_option last_status
        (map_of (schedules (snd (execute_scheduled_backup stub_env succeeding_callback sample_id
                                   sample_state))) sample_id) = Some (Some ''success'')
   \<and> length (entries (history (snd (execute_scheduled_backup stub_env succeeding_callback sample_id
                                      sample_state)))) = 1"
proof -
  let ?R = "execute_scheduled_backup stub_env succeeding_callback sample_id sample_state"
  have found: "map_of (schedules sample_state) sample_id = Some sample_schedule"
    by (simp add: sample_state_def)
  have active: "status sample_schedule = ACTIVE"
    by (simp add: sample_schedule_def)
  have free: "\<not> running_backup sample_state"
    by (simp add: sample_state_def)
  have ok: "\<exists>bs. invocations sample_state sample_schedule = Inr bs
                \<and> await_all succeeding_callback 0 sample_id bs = None"
    by (simp add: invocations_def sample_state_def sample_schedule_def succeeding_callback_def)
  have rc: "run_count sample_schedule = 0"
    by (simp add: sample_schedule_def)
  have h: "history sample_state = ScheduleHistory_init 100"
    by (simp add: sample_state_def)
  from successful_firing [OF found active free ok, of stub_env]
  have "fst ?R = Succeeded
        \<and> map_option run_count (map_of (schedules (snd ?R)) sample_id) = Some 1
        \<and> map_option last_status (map_of (schedules (snd ?R)) sample_id) = Some (Some ''success'')
        \<and> length (entries (history (snd ?R))) = 1"
    by (auto simp: rc h ScheduleHistory_add_def ScheduleHistory_init_def Let_def)
  then show ?thesis using found active free ok by blast
qed

text \<open>
  What a firing does when an invocation raises an \<^verbatim>\<open>Exception\<close>: the schedule stays
  stored, with \<^verbatim>\<open>last_status\<close> \<open>failed\<close> and every other field, \<^verbatim>\<open>status\<close> and
  \<^verbatim>\<open>next_run\<close> included, as before; one \<open>failed\<close> entry with the message of the
  exception is added to the history; the gate is open again.
\<close>

lemma failed_firing:
  assumes found: "map_of (schedules st) sid = Some s"
      and active: "status s = ACTIVE"
      and free: "\<not> running_backup st"
      and raises: "invocations st s = Inl e
                   \<or> (\<exists>bs. invocations st s = Inr bs \<and> await_all cb 0 sid bs = Some e)"
      and exc: "is_Exception e"
  shows "fst (execute_scheduled_backup E cb sid st) = Failed e
       \<and> map_of (schedules (snd (execute_scheduled_backup E cb sid st))) sid
           = Some (s\<lparr>last_status := Some ''failed''\<rparr>)
       \<and> map fst (schedules (snd (execute_scheduled_backup E cb sid st))) = map fst (schedules st)
       \<and> (\<exists>c. history (snd (execute_scheduled_backup E cb sid st))
                 = ScheduleHistory_add (history st) c
              \<and> ac_schedule_id c = sid \<and> ac_status c = ''failed'' \<and> ac_message c = str_exn e)
       \<and> \<not> running_backup (snd (execute_scheduled_backup E cb sid st))"
proof -
  let ?a = "acquired s st"
  let ?t0 = "clock_readings st (ticks st)"
  have fa: "map_of (schedules ?a) sid = Some s"
    using found by (simp add: acquired_fields)
  have ex: "execute_scheduled_backup E cb sid st
              = (Failed e, finally_block (on_failure sid s ?t0 e ?a))"
    using raises exc fa
    by (auto simp: execute_scheduled_backup_def begin_firing_acquires [OF found active free]
          invocations_acquired complete_def current_schedule_def)
  from failure_effects [OF fa, of ?t0 e]
  show ?thesis
    by (auto simp: ex acquired_fields)
qed

text \<open>
  Claim C2 at a concrete firing. The schedule is due at 10:00:00 and fires then; its
  callback raises. The firing ends as a failure, and the stored schedule is the old
  one with only \<^verbatim>\<open>last_status\<close> changed: \<^verbatim>\<open>next_run\<close> still is 10:00:00 of that
  day, the start of the firing itself. The handler of the exception does not call
  \<^verbatim>\<open>_calculate_next_run\<close>, which the success path does.
\<close>

theorem failed_firing_keeps_next_run:
  "fst (execute_scheduled_backup stub_env failing_callback sample_id due_state)
     = Failed (ValueError ''mongodb is not a valid BackupType'')
   \<and> map_of (schedules (snd (execute_scheduled_backup stub_env failing_callback sample_id due_state)))
        sample_id
       = Some (due_schedule\<lparr>last_status := Some ''failed''\<rparr>)
   \<and> next_run (due_schedule\<lparr>last_status := Some ''failed''\<rparr>) = Some ''2024-01-01T10:00:00''
   \<and> isoformat (fst (now due_state)) = ''2024-01-01T10:00:00''"
proof -
  let ?R = "execute_scheduled_backup stub_env failing_callback sample_id due_state"
  have found: "map_of (schedules due_state) sample_id = Some due_schedule"
    by (simp add: due_state_def)
  have active: "status due_schedule = ACTIVE"
    by (simp add: due_schedule_def sample_schedule_def)
  have free: "\<not> running_backup due_state"
    by (simp add: due_state_def sample_state_def)
  have raises: "invocations due_state due_schedule = Inl (ValueError ''mongodb is not a valid BackupType'')
                \<or> (\<exists>bs. invocations due_state due_schedule = Inr bs
                        \<and> await_all failing_callback 0 sample_id bs
                            = Some (ValueError ''mongodb is not a valid BackupType''))"
    by (simp add: invocations_def due_state_def due_schedule_def sample_state_def
          sample_schedule_def failing_callback_def)
  have exc: "is_Exception (ValueError ''mongodb is not a valid BackupType'')" by simp
  note f = failed_firing [OF found active free raises exc, of stub_env]
  have n: "next_run (due_schedule\<lparr>last_status := Some ''failed''\<rparr>) = Some ''2024-01-01T10:00:00''"
    by (simp add: due_schedule_def)
  have i: "isoformat (fst (now due_state)) = ''2024-01-01T10:00:00''"
    by code_simp
  show ?thesis using f n i by simp
qed


section \<open>The gate\<close>

lemma flights_update:
  assumes "i < length ts"
  shows "length (filter in_flight (ts[i := t])) + (if in_flight (ts ! i) then 1 else 0)
           = length (filter in_flight ts) + (if in_flight t then 1 else 0)"
  using assms
proof (induction ts arbitrary: i)
  case Nil
  then show ?case by simp
next
  case (Cons a ts)
  then show ?case by (cases i) auto
qed

lemma finally_block_gate: "\<not> running_backup (finally_block st)"
  by (simp add: finally_block_def save_schedules_def now_def logger_def Let_def
        split: option.splits prod.splits)

lemma complete_gate:
  assumes "complete E sid s t0 r st = (out, st')"
  shows "\<not> running_backup st'"
  using assms
  by (auto simp: complete_def Let_def finally_block_gate split: option.splits if_splits)

lemma begin_firing_cases:
  "(\<exists>out st1. begin_firing sid st = (Skip out, st1) \<and> running_backup st1 = running_backup st)
   \<or> (\<exists>s t0 st1. begin_firing sid st = (Acquired s t0, st1) \<and> \<not> running_backup st
                  \<and> running_backup st1)"
  by (auto simp: begin_firing_def now_def logger_def Let_def split: option.splits)

lemma start_task_gate:
  assumes "start_task E sid st = (pc, st')"
  shows "pc \<noteq> Created
       \<and> (running_backup st \<longrightarrow> (\<exists>out. pc = Ended out) \<and> running_backup st')
       \<and> (\<not> running_backup st \<longrightarrow>
             (running_backup st' \<longleftrightarrow> in_flight \<lparr>task_sid = sid, task_pc = pc\<rparr>))"
proof -
  from begin_firing_cases [of sid st]
  show ?thesis
  proof (elim disjE exE conjE)
    fix out st1
    assume b: "begin_firing sid st = (Skip out, st1)" and g: "running_backup st1 = running_backup st"
    then have "pc = Ended out" "st' = st1" using assms by (simp_all add: start_task_def)
    then show ?thesis using g by (simp add: in_flight_def)
  next
    fix s t0 st1
    assume b: "begin_firing sid st = (Acquired s t0, st1)" and f: "\<not> running_backup st"
       and g: "running_backup st1"
    show ?thesis
    proof (cases "invocations st1 s")
      case (Inl e)
      obtain out st2 where c: "complete E sid s t0 (Some e) st1 = (out, st2)"
        by (cases "complete E sid s t0 (Some e) st1")
      then have "pc = Ended out" "st' = st2" using assms b Inl by (simp_all add: start_task_def)
      then show ?thesis using f complete_gate [OF c] by (simp add: in_flight_def)
    next
      case (Inr bs)
      show ?thesis
      proof (cases bs)
        case Nil
        obtain out st2 where c: "complete E sid s t0 None st1 = (out, st2)"
          by (cases "complete E sid s t0 None st1")
        then have "pc = Ended out" "st' = st2" using assms b Inr Nil by (simp_all add: start_task_def)
        then show ?thesis using f complete_gate [OF c] by (simp add: in_flight_def)
      next
        case (Cons x xs)
        then have "pc = Awaiting s t0 0 x xs" "st' = st1" using assms b Inr by (simp_all add: start_task_def)
        then show ?thesis using f g by (simp add: in_flight_def)
      qed
    qed
  qed
qed

lemma resume_task_gate:
  assumes "resume_task E sid s t0 k rest r st = (pc, st')"
  shows "pc \<noteq> Created \<and> (running_backup st \<longrightarrow>
           (running_backup st' \<longleftrightarrow> in_flight \<lparr>task_sid = sid, task_pc = pc\<rparr>))"
proof (cases "r = None \<and> rest \<noteq> []")
  case True
  then obtain b bs where "rest = b # bs" by (cases rest) auto
  then have "pc = Awaiting s t0 (Suc k) b bs" "st' = st"
    using assms True by (simp_all add: resume_task_def)
  then show ?thesis by (simp add: in_flight_def)
next
  case False
  let ?r = "case r of Some e \<Rightarrow> Some e | None \<Rightarrow> None"
  obtain out st2 where c: "complete E sid s t0 r st = (out, st2)"
    by (cases "complete E sid s t0 r st")
  have "pc = Ended out \<and> st' = st2"
    using assms False c by (cases r; cases rest) (auto simp: resume_task_def)
  then show ?thesis using complete_gate [OF c] by (simp add: in_flight_def)
qed

lemma in_flight_pc: "in_flight (t\<lparr>task_pc := pc\<rparr>) = in_flight \<lparr>task_sid = sid, task_pc = pc\<rparr>"
  by (simp add: in_flight_def)

lemma step_invariant:
  assumes inv: "gate_invariant sys"
  shows "gate_invariant (step E sys ev)"
proof (cases ev)
  case (TimerFires sid)
  then show ?thesis using inv
    by (simp add: step_def gate_invariant_def flights_def in_flight_def)
next
  case (RunNow sid)
  then show ?thesis using inv
    by (simp add: step_def run_now_def gate_invariant_def flights_def in_flight_def)
next
  case (Starts i)
  show ?thesis
  proof (cases "i < length (tasks sys) \<and> task_pc (tasks sys ! i) = Created")
    case False
    then show ?thesis using inv Starts
      by (auto simp: step_def split: task_pc.splits)
  next
    case True
    obtain pc st' where st: "start_task E (task_sid (tasks sys ! i)) (sched sys) = (pc, st')"
      by (cases "start_task E (task_sid (tasks sys ! i)) (sched sys)")
    have stp: "step E sys ev = \<lparr>sched = st', tasks = (tasks sys)[i := (tasks sys ! i)\<lparr>task_pc := pc\<rparr>]\<rparr>"
      using True Starts st by (simp add: step_def)
    have nf: "\<not> in_flight (tasks sys ! i)" using True by (simp add: in_flight_def)
    from flights_update [of i "tasks sys" "(tasks sys ! i)\<lparr>task_pc := pc\<rparr>"] True nf
    have fl: "flights (step E sys ev)
                = flights sys + (if in_flight ((tasks sys ! i)\<lparr>task_pc := pc\<rparr>) then 1 else 0)"
      by (simp add: stp flights_def)
    note g = start_task_gate [OF st]
    show ?thesis
      using inv fl g
      by (cases "running_backup (sched sys)")
         (auto simp: gate_invariant_def stp in_flight_pc [of _ _ "task_sid (tasks sys ! i)"]
                     in_flight_def)
  qed
next
  case (Returns i r)
  show ?thesis
  proof (cases "i < length (tasks sys) \<and> in_flight (tasks sys ! i)")
    case False
    then show ?thesis using inv Returns
      by (auto simp: step_def in_flight_def split: task_pc.splits)
  next
    case True
    then obtain s t0 k b rest where pc0: "task_pc (tasks sys ! i) = Awaiting s t0 k b rest"
      by (auto simp: in_flight_def split: task_pc.splits)
    obtain pc st' where st: "resume_task E (task_sid (tasks sys ! i)) s t0 k rest r (sched sys) = (pc, st')"
      by (cases "resume_task E (task_sid (tasks sys ! i)) s t0 k rest r (sched sys)")
    have stp: "step E sys ev = \<lparr>sched = st', tasks = (tasks sys)[i := (tasks sys ! i)\<lparr>task_pc := pc\<rparr>]\<rparr>"
      using True Returns st pc0 by (simp add: step_def)
    from flights_update [of i "tasks sys" "(tasks sys ! i)\<lparr>task_pc := pc\<rparr>"] True
    have fl: "flights (step E sys ev) + 1
                = flights sys + (if in_flight ((tasks sys ! i)\<lparr>task_pc := pc\<rparr>) then 1 else 0)"
      by (simp add: stp flights_def)
    have "tasks sys ! i \<in> set (filter in_flight (tasks sys))"
      using True by simp
    then have pos: "0 < flights sys"
      unfolding flights_def by (cases "filter in_flight (tasks sys)") auto
    note g = resume_task_gate [OF st]
    show ?thesis
      using inv fl g pos
      by (auto simp: gate_invariant_def stp in_flight_pc [of _ _ "task_sid (tasks sys ! i)"] split: if_splits)
  qed
qed

lemma run_invariant:
  assumes "gate_invariant sys"
  shows "gate_invariant (run E sys evs)"
  using assms unfolding run_def
  by (induction evs arbitrary: sys) (simp_all add: step_invariant)


lemma two_in_flight:
  assumes "i < j" and "j < length ts" and "in_flight (ts ! i)" and "in_flight (ts ! j)"
  shows "2 \<le> length (filter in_flight ts)"
proof -
  have "{i, j} \<subseteq> {k. k < length ts \<and> in_flight (ts ! k)}" using assms by auto
  moreover have "finite {k. k < length ts \<and> in_flight (ts ! k)}" by simp
  ultimately have "card {i, j} \<le> card {k. k < length ts \<and> in_flight (ts ! k)}"
    by (rule card_mono [rotated])
  moreover have "card {i, j} = 2" using assms(1) by simp
  ultimately show ?thesis by (simp add: length_filter_conv_card)
qed

lemma start_task_busy:
  assumes "running_backup st"
  shows "\<exists>out st'. start_task E sid st = (Ended out, st') \<and> st' = st\<lparr>logged := logged st'\<rparr>
                  \<and> (\<forall>s. map_of (schedules st) sid = Some s \<and> status s = ACTIVE \<longrightarrow> out = GateBusy)"
  using assms
  by (auto simp: start_task_def begin_firing_def logger_def split: option.splits)

text \<open>
  Claim C1. From a state with the gate open and no invocation in flight, after any
  sequence of events (firings dispatched by timers or by \<^verbatim>\<open>run_now\<close>, tasks starting,
  awaited invocations returning or raising) at most one task has a callback
  invocation in flight, the gate is set exactly when one has, and no two tasks are in
  flight together. A task that starts while the gate is set ends at once: it awaits no
  callback and changes nothing but the log, nothing is queued (the tasks stay the
  same in number), and when its schedule is active the outcome is the skip for a busy
  gate. Whatever ends the body of the \<^verbatim>\<open>try\<close>, the state after it has the gate open.
\<close>

theorem gate_mutual_exclusion:
  assumes idle: "flights sys = 0" and free: "\<not> running_backup (sched sys)"
  shows "flights (run E sys evs) \<le> 1
       \<and> (running_backup (sched (run E sys evs)) \<longleftrightarrow> flights (run E sys evs) = 1)
       \<and> (\<forall>i j. i < j \<and> j < length (tasks (run E sys evs)) \<longrightarrow>
              \<not> (in_flight (tasks (run E sys evs) ! i) \<and> in_flight (tasks (run E sys evs) ! j)))
       \<and> (\<forall>st sid. running_backup st \<longrightarrow>
              (\<exists>out st'. start_task E sid st = (Ended out, st') \<and> st' = st\<lparr>logged := logged st'\<rparr>
                  \<and> (\<forall>s. map_of (schedules st) sid = Some s \<and> status s = ACTIVE
                          \<longrightarrow> out = GateBusy)))
       \<and> (\<forall>i. length (tasks (step E (run E sys evs) (Starts i))) = length (tasks (run E sys evs)))
       \<and> (\<forall>sid s t0 r st. \<not> running_backup (snd (complete E sid s t0 r st)))"
proof -
  have "gate_invariant sys" using idle free by (simp add: gate_invariant_def)
  then have inv: "gate_invariant (run E sys evs)" by (rule run_invariant)
  then have 1: "flights (run E sys evs) \<le> 1"
    and 2: "running_backup (sched (run E sys evs)) \<longleftrightarrow> flights (run E sys evs) = 1"
    by (simp_all add: gate_invariant_def)
  have 3: "\<forall>i j. i < j \<and> j < length (tasks (run E sys evs)) \<longrightarrow>
              \<not> (in_flight (tasks (run E sys evs) ! i) \<and> in_flight (tasks (run E sys evs) ! j))"
  proof (intro allI impI notI)
    fix i j
    assume a: "i < j \<and> j < length (tasks (run E sys evs))"
       and b: "in_flight (tasks (run E sys evs) ! i) \<and> in_flight (tasks (run E sys evs) ! j)"
    then have "2 \<le> flights (run E sys evs)"
      unfolding flights_def by (intro two_in_flight [of i j]) auto
    then show False using 1 by simp
  qed
  have 4: "\<forall>st sid. running_backup st \<longrightarrow>
              (\<exists>out st'. start_task E sid st = (Ended out, st') \<and> st' = st\<lparr>logged := logged st'\<rparr>
                  \<and> (\<forall>s. map_of (schedules st) sid = Some s \<and> status s = ACTIVE
                          \<longrightarrow> out = GateBusy))"
    using start_task_busy by blast
  have 5: "\<forall>i. length (tasks (step E sys' (Starts i))) = length (tasks sys')" for sys'
    by (auto simp: step_def split: task_pc.splits prod.splits)
  have 6: "\<forall>sid s t0 r st. \<not> running_backup (snd (complete E sid s t0 r st))"
  proof (intro allI)
    fix sid s t0 r st
    show "\<not> running_backup (snd (complete E sid s t0 r st))"
      using complete_gate [of E sid s t0 r st] by (cases "complete E sid s t0 r st") simp
  qed
  from 1 2 3 4 5 6 show ?thesis by blast
qed

lemma two_firings_run:
  "map in_flight (tasks (run stub_env idle_system two_firings)) = [True, False]
   \<and> map task_pc (tl (tasks (run stub_env idle_system two_firings))) = [Ended GateBusy]"
  by code_simp

theorem gate_mutual_exclusion_witness:
  "flights idle_system = 0 \<and> \<not> running_backup (sched idle_system)
   \<and> flights (run stub_env idle_system two_firings) \<le> 1
   \<and> map in_flight (tasks (run stub_env idle_system two_firings)) = [True, False]
   \<and> map task_pc (tl (tasks (run stub_env idle_system two_firings))) = [Ended GateBusy]"
proof -
  have i: "flights idle_system = 0"
    by (simp add: idle_system_def flights_def)
  have f: "\<not> running_backup (sched idle_system)"
    by (simp add: idle_system_def sample_state_def)
  show ?thesis
    using i f two_firings_run gate_mutual_exclusion [OF i f, of stub_env two_firings]
    by simp
qed


section \<open>Running a schedule now\<close>

text \<open>
  Claim C9, as the code has it. For an unknown id \<^verbatim>\<open>run_now\<close> returns false and
  changes nothing. For a known id it returns true, leaves the scheduler as it is and
  creates a task, which has not started when \<^verbatim>\<open>run_now\<close> returns. When the task
  starts it goes through the same two checks as a timer firing: if the schedule is
  not active it ends without invoking anything, if the gate is set it ends as
  skipped, and otherwise it takes the gate and awaits its first callback invocation.
\<close>

theorem run_now_starts_a_task:
  "(map_of (schedules (sched sys)) sid = None \<longrightarrow> run_now sid sys = (False, sys))
   \<and> (map_of (schedules (sched sys)) sid \<noteq> None \<longrightarrow>
         run_now sid sys = (True, sys\<lparr>tasks := tasks sys @ [\<lparr>task_sid = sid, task_pc = Created\<rparr>]\<rparr>))
   \<and> (\<forall>st s. map_of (schedules st) sid = Some s \<longrightarrow>
         (status s \<noteq> ACTIVE \<longrightarrow> fst (start_task E sid st) = Ended NotActive)
         \<and> (status s = ACTIVE \<and> running_backup st \<longrightarrow> fst (start_task E sid st) = Ended GateBusy)
         \<and> (\<forall>b bs. status s = ACTIVE \<and> \<not> running_backup st \<and> invocations st s = Inr (b # bs) \<longrightarrow>
                fst (start_task E sid st) = Awaiting s (clock_readings st (ticks st)) 0 b bs
                \<and> running_backup (snd (start_task E sid st))))"
  by (auto simp: run_now_def start_task_def begin_firing_def now_def logger_def invocations_def
           split: option.splits)

theorem run_now_starts_a_task_witness:
  "map_of (schedules (sched idle_system)) sample_id \<noteq> None
   \<and> fst (run_now sample_id idle_system) = True
   \<and> sched (snd (run_now sample_id idle_system)) = sched idle_system
   \<and> map_of (schedules sample_state) sample_id = Some sample_schedule
   \<and> status sample_schedule = ACTIVE \<and> \<not> running_backup sample_state
   \<and> invocations sample_state sample_schedule = Inr (''mongodb'' # [''postgres''])
   \<and> fst (start_task stub_env sample_id sample_state)
       = Awaiting sample_schedule (clock_readings sample_state (ticks sample_state)) 0
           ''mongodb'' [''postgres'']"
proof -
  have a: "map_of (schedules (sched idle_system)) sample_id \<noteq> None"
    by (simp add: idle_system_def sample_state_def)
  have b: "map_of (schedules sample_state) sample_id = Some sample_schedule"
    by (simp add: sample_state_def)
  have c: "status sample_schedule = ACTIVE \<and> \<not> running_backup sample_state
           \<and> invocations sample_state sample_schedule = Inr (''mongodb'' # [''postgres''])"
    by (simp add: sample_state_def sample_schedule_def invocations_def)
  note t = run_now_starts_a_task [of idle_system sample_id stub_env]
  have r: "run_now sample_id idle_system
             = (True, idle_system\<lparr>tasks := tasks idle_system
                                          @ [\<lparr>task_sid = sample_id, task_pc = Created\<rparr>]\<rparr>)"
    using t a by blast
  have "fst (start_task stub_env sample_id sample_state)
          = Awaiting sample_schedule (clock_readings sample_state (ticks sample_state)) 0
              ''mongodb'' [''postgres'']"
    using t b c by blast
  then show ?thesis
    using a b c r by simp
qed

text \<open>
  Claim C9 as stated fails: for a paused schedule and an open gate \<^verbatim>\<open>run_now\<close>
  returns true, and the task it created ends as not active, with no invocation and no
  history entry.
\<close>

theorem run_now_paused_schedule_counterexample:
  "map_of (schedules (sched paused_system)) sample_id \<noteq> None
   \<and> \<not> running_backup (sched paused_system)
   \<and> fst (run_now sample_id paused_system) = True
   \<and> map task_pc (tasks (run stub_env paused_system run_now_then_start)) = [Ended NotActive]
   \<and> history (sched (run stub_env paused_system run_now_then_start)) = history (sched paused_system)"
  by code_simp


section \<open>Task ids and task output\<close>




















end
